theory Spec2Isabelle
  imports Complex_Main "HOL-Library.Word"
begin

unbundle bit_operations_syntax

section \<open>ptypy/core/data.py: diffraction data access\<close>

text \<open>
  The module is Python 2 (\<open>iteritems\<close>, \<open>raw_input\<close>, \<open>range\<close> returning a list).
  Exceptions are values: a function that may raise returns \<open>exn + 'a\<close>, with
  \<open>Inl\<close> the exception that leaves the function.
\<close>

datatype exn =
    IndexError | TypeError | KeyError | AttributeError | AssertionError
  | RuntimeError | NameError | UnboundLocalError | IOError | ValueError

subsection \<open>The numpy arrays the module handles\<close>

text \<open>
  An array is its shape and its entries in row-major order. \<open>np.ones\<close> and
  \<open>np.zeros\<close> build the constant arrays; \<open>a.ndim\<close> is the number of axes.
\<close>

datatype ndarray = NDArray (arr_shape: "nat list") (arr_elems: "rat list")

definition ndim :: "ndarray \<Rightarrow> nat" where
  "ndim a = length (arr_shape a)"

definition np_ones :: "nat list \<Rightarrow> ndarray" where
  "np_ones sh = NDArray sh (replicate (prod_list sh) 1)"

definition np_zeros :: "nat list \<Rightarrow> ndarray" where
  "np_zeros sh = NDArray sh (replicate (prod_list sh) 0)"

text \<open>
  The entries of the slice tuples that \<open>load\<close> builds: \<open>slice(start, stop)\<close> (either
  bound may be \<open>None\<close>) and, for an explicit index list, the tuple of the indices.
  \<open>load\<close> puts at most one index tuple in a slice tuple, on the frame axis.
\<close>

datatype subscript = Slice "int option" "int option" | IntTuple "int list"

type_synonym slc = "subscript list"

text \<open>Python's clamping of one bound of a slice with step 1 on an axis of length \<open>n\<close>.\<close>

definition slice_bound :: "nat \<Rightarrow> int \<Rightarrow> nat" where
  "slice_bound n i = (if i < 0 then nat (max 0 (i + int n)) else min n (nat i))"

text \<open>
  The positions a subscript selects on an axis of length \<open>n\<close>. A slice never fails; an
  index outside \<open>-n .. n-1\<close> raises IndexError, a negative one counts from the end.
\<close>

fun int_position :: "nat \<Rightarrow> int \<Rightarrow> exn + nat" where
  "int_position n i =
     (if 0 \<le> i \<and> i < int n then Inr (nat i)
      else if - int n \<le> i \<and> i < 0 then Inr (nat (i + int n))
      else Inl IndexError)"

fun int_positions :: "nat \<Rightarrow> int list \<Rightarrow> exn + nat list" where
  "int_positions n [] = Inr []"
| "int_positions n (i # js) =
     (case int_position n i of
        Inl e \<Rightarrow> Inl e
      | Inr p \<Rightarrow> (case int_positions n js of Inl e \<Rightarrow> Inl e | Inr ps \<Rightarrow> Inr (p # ps)))"

fun axis_positions :: "nat \<Rightarrow> subscript \<Rightarrow> exn + nat list" where
  "axis_positions n (Slice lo hi) =
     (let a = (case lo of None \<Rightarrow> 0 | Some i \<Rightarrow> slice_bound n i);
          b = (case hi of None \<Rightarrow> n | Some i \<Rightarrow> slice_bound n i)
      in Inr [a..<b])"
| "axis_positions n (IntTuple js) = int_positions n js"

text \<open>
  \<open>a[slc]\<close> for a tuple \<open>slc\<close>: the entries index the leading axes, one each; more
  entries than axes raise IndexError; the axes left over are taken whole.
\<close>

fun index_positions :: "nat list \<Rightarrow> slc \<Rightarrow> exn + nat list list" where
  "index_positions sh [] = Inr []"
| "index_positions [] (ix # ixs) = Inl IndexError"
| "index_positions (n # sh) (ix # ixs) =
     (case axis_positions n ix of
        Inl e \<Rightarrow> Inl e
      | Inr ps \<Rightarrow>
          (case index_positions sh ixs of Inl e \<Rightarrow> Inl e | Inr pss \<Rightarrow> Inr (ps # pss)))"

fun pick :: "nat list \<Rightarrow> nat list list \<Rightarrow> rat list \<Rightarrow> rat list" where
  "pick (n # sh) (ps # pss) es =
     concat (map (\<lambda>p. pick sh pss (take (prod_list sh) (drop (p * prod_list sh) es))) ps)"
| "pick sh pss es = es"

definition getitem :: "ndarray \<Rightarrow> slc \<Rightarrow> exn + ndarray" where
  "getitem a sl =
     (case index_positions (arr_shape a) sl of
        Inl e \<Rightarrow> Inl e
      | Inr pss \<Rightarrow>
          Inr (NDArray (map length pss @ drop (length pss) (arr_shape a))
                 (pick (arr_shape a) pss (arr_elems a))))"

text \<open>\<open>a[k]\<close> for the counter \<open>k\<close> of \<open>enumerate\<close>: the \<open>k\<close>-th entry along the first axis.\<close>

definition getframe :: "ndarray \<Rightarrow> nat \<Rightarrow> exn + ndarray" where
  "getframe a k =
     (case arr_shape a of
        [] \<Rightarrow> Inl IndexError
      | n # sh \<Rightarrow>
          if k < n
          then Inr (NDArray sh (take (prod_list sh) (drop (k * prod_list sh) (arr_elems a))))
          else Inl IndexError)"

text \<open>
  \<open>xs[i] = v\<close> on a Python list: a negative index counts from the end, an index
  outside \<open>-len .. len-1\<close> raises IndexError.
\<close>

definition list_setitem :: "'a list \<Rightarrow> int \<Rightarrow> 'a \<Rightarrow> exn + 'a list" where
  "list_setitem xs i v =
     (case int_position (length xs) i of Inl e \<Rightarrow> Inl e | Inr p \<Rightarrow> Inr (xs[p := v]))"

subsection \<open>scan_info and the sources of a DataScan\<close>

text \<open>
  \<open>scan_info\<close> is a \<open>Param\<close> (a dictionary with attribute access, from
  \<open>ptypy.utils\<close>). The entries the module reads get a field of their type:
  \<open>shape\<close> is \<open>(N, H, W)\<close> ("3D!!" in \<open>DEFAULT_scan_info\<close>), \<open>positions\<close> is
  \<open>None\<close> or one position per frame. The other entries are kept as key and value.
\<close>

datatype pyval =
    PNone | PStr string | PNum rat | PShape "nat \<times> nat \<times> nat" | PPos "(rat \<times> rat) list"

record scan_info =
  scan_label :: string
  data_filename :: "string option"
  shape :: "nat \<times> nat \<times> nat"
  positions :: "(rat \<times> rat) list option"
  others :: "(string \<times> pyval) list"

definition DEFAULT_scan_info :: scan_info where
  "DEFAULT_scan_info =
     \<lparr> scan_label = ''Scan%(idx)02d'',
       data_filename = None,
       shape = (10, 96, 96),
       positions = None,
       others =
         [(''scan_number'', PNone), (''wavelength'', PNone), (''energy'', PNone),
          (''detector_pixel_size'', PNone), (''detector_distance'', PNone),
          (''initial_ctr'', PNone), (''date_collected'', PNone), (''date_processed'', PNone),
          (''exposure_time'', PNone), (''preparation_basepath'', PNone),
          (''preparation_other'', PNone), (''positions_theory'', PNone),
          (''scan_command'', PNone)] \<rparr>"

definition shape_list :: "scan_info \<Rightarrow> nat list" where
  "shape_list si = (case shape si of (n, h, w) \<Rightarrow> [n, h, w])"

text \<open>
  The three kinds of source of \<open>set_source\<close>: \<open>None\<close>, a file name, a dictionary (its
  arrays by key, and its \<open>scan_info\<close> entry if it has one). An update of \<open>scan_info\<close>
  from a dictionary (\<open>pars\<close>, or the \<open>scan_info\<close> stored with the data) is the function
  that performs it.
\<close>

type_synonym pars = "scan_info \<Rightarrow> scan_info"

datatype source =
    NoSource
  | FileSource string
  | DictSource "(string \<times> ndarray) list" "pars option"

text \<open>The three closures \<open>set_source\<close> can attach as \<open>self.loader\<close>.\<close>

datatype loader_kind = EmptyLoader | H5Loader | DictLoader

text \<open>
  The attributes of a DataScan. \<open>unload_data\<close> deletes the arrays and the lists, so
  each of them is \<open>None\<close> while the object has no such attribute; \<open>Some None\<close> is
  Python's \<open>None\<close>. \<open>Nframes\<close>, \<open>frame_slice\<close>, \<open>asize\<close> exist once \<open>load\<close> has
  set them.
\<close>

record datascan =
  data :: "ndarray option option"
  mask :: "ndarray option option"
  flat :: "ndarray option option"
  dark :: "ndarray option option"
  datalist :: "ndarray option list option"
  masklist :: "ndarray option list option"
  flatlist :: "ndarray option list option"
  darklist :: "ndarray option list option"
  indices :: "int list option"
  Nframes :: "int option"
  frame_slice :: "subscript option option"
  asize :: "(int \<times> int) option"
  scan_info :: scan_info
  label :: string
  sink :: "source"
  source :: "source"
  loader_attr :: "loader_kind option"

text \<open>
  What the module takes from outside: the file reader \<open>io.h5read\<close> (the array under
  a key, sliced; the stored \<open>scan_info\<close>), the partition
  \<open>parallel.loadmanager.assign(idlist)[parallel.rank]\<close>, the process's rank and role,
  the file system and the user at the prompt, and the number of nested calls the
  interpreter still allows (past it a call raises "RuntimeError: maximum recursion
  depth exceeded").
\<close>

record env =
  h5read :: "string \<Rightarrow> string \<Rightarrow> slc option \<Rightarrow> exn + ndarray"
  h5read_info :: "string \<Rightarrow> exn + pars"
  assign :: "(string \<times> int) list \<Rightarrow> int list"
  rank :: nat
  master :: bool
  MPIenabled :: bool
  recursion_depth :: nat
  clean_path :: "string \<Rightarrow> string"
  path_exists :: "string \<Rightarrow> bool"
  raw_input :: "string \<Rightarrow> string"

subsection \<open>DataScan: construction and set_source\<close>

definition endswith :: "string \<Rightarrow> string \<Rightarrow> bool" where
  "endswith s suf = (length suf \<le> length s \<and> drop (length s - length suf) s = suf)"

text \<open>
  \<open>set_source\<close>, lines 123-188. A file name with another extension leaves the local
  \<open>loader\<close> unbound, so the last line raises UnboundLocalError.
\<close>

definition set_source :: "env \<Rightarrow> datascan \<Rightarrow> source \<Rightarrow> exn option \<times> datascan" where
  "set_source ev s other_source =
     (let s1 = s\<lparr>source := other_source\<rparr> in
      case other_source of
        NoSource \<Rightarrow>
          (None, s1\<lparr>label := scan_label (scan_info s1), loader_attr := Some EmptyLoader\<rparr>)
      | FileSource f \<Rightarrow>
          if endswith f ''.h5'' \<or> endswith f ''.ptyd'' then
            (case h5read_info ev f of
               Inl e \<Rightarrow> (Some e, s1)
             | Inr upd \<Rightarrow>
                 (let si = (upd (scan_info s1))\<lparr>data_filename := Some f\<rparr>
                  in (None, s1\<lparr>scan_info := si, label := scan_label si,
                              loader_attr := Some H5Loader\<rparr>)))
          else (Some UnboundLocalError, s1)
      | DictSource arrays info \<Rightarrow>
          (let si = (case info of None \<Rightarrow> scan_info s1 | Some upd \<Rightarrow> upd (scan_info s1))
           in (None, s1\<lparr>scan_info := si, label := scan_label si,
                       loader_attr := Some DictLoader\<rparr>)))"

text \<open>\<open>__init__\<close>, lines 84-121; the object exists only if \<open>set_source\<close> returns.\<close>

definition DataScan_init :: "env \<Rightarrow> pars option \<Rightarrow> source \<Rightarrow> source option \<Rightarrow> exn + datascan" where
  "DataScan_init ev pars src snk =
     (let si = (case pars of None \<Rightarrow> DEFAULT_scan_info | Some upd \<Rightarrow> upd DEFAULT_scan_info);
          s = \<lparr> data = Some None, mask = Some None, flat = Some None, dark = Some None,
                datalist = Some [], masklist = Some [], flatlist = Some [], darklist = Some [],
                indices = None, Nframes = None, frame_slice = None, asize = None,
                scan_info = si, label = scan_label si,
                sink = (case snk of None \<Rightarrow> src | Some k \<Rightarrow> k),
                source = src, loader_attr = None \<rparr>
      in case set_source ev s src of
           (None, s') \<Rightarrow> Inr s'
         | (Some e, s') \<Rightarrow> Inl e)"

text \<open>
  \<open>self.loader(key, slc)\<close>: the closure attached by \<open>set_source\<close>, run on the
  object as it is at the call (each closure reads \<open>self.source\<close> or
  \<open>self.scan_info\<close> when it is called). Lines 144-151, 167-169, 183-185.
\<close>

definition loader :: "env \<Rightarrow> datascan \<Rightarrow> string \<Rightarrow> slc option \<Rightarrow> exn + ndarray" where
  "loader ev s key sl =
     (case loader_attr s of
        None \<Rightarrow> Inl AttributeError
      | Some EmptyLoader \<Rightarrow>
          (let buf = (if key \<in> set [''flat'', ''mask'']
                      then np_ones (shape_list (scan_info s))
                      else np_zeros (shape_list (scan_info s)))
           in case sl of None \<Rightarrow> Inr buf | Some ix \<Rightarrow> getitem buf ix)
      | Some H5Loader \<Rightarrow>
          (case source s of FileSource f \<Rightarrow> h5read ev f key sl | _ \<Rightarrow> Inl TypeError)
      | Some DictLoader \<Rightarrow>
          (case source s of
             DictSource arrays info \<Rightarrow>
               (case map_of arrays key of
                  None \<Rightarrow> Inl KeyError
                | Some a \<Rightarrow> (case sl of None \<Rightarrow> Inr a | Some ix \<Rightarrow> getitem a ix))
           | _ \<Rightarrow> Inl TypeError))"

subsection \<open>DataScan.load\<close>

text \<open>\<open>MPIsplit\<close>: \<open>False\<close>, \<open>True\<close>, or the list of the frames to read.\<close>

datatype split = SplitFalse | SplitTrue | SplitList "int list"

text \<open>
  Lines 234-253: the indices to read and the frame slice. \<open>range(first, last)\<close> is
  the list \<open>[first..last - 1]\<close>. In the automatic mode \<open>indices[0]\<close> raises
  IndexError on an empty assignment, and the assertion of line 246 compares the
  assignment with \<open>range(indices[0], indices[-1] + 1)\<close>.
\<close>

definition load_indices ::
  "env \<Rightarrow> scan_info \<Rightarrow> int \<Rightarrow> int \<Rightarrow> split \<Rightarrow> exn + int list \<times> subscript option" where
  "load_indices ev si first lst MPIsplit =
     (case MPIsplit of
        SplitFalse \<Rightarrow> Inr ([first..lst - 1], Some (Slice None None))
      | SplitTrue \<Rightarrow>
          (let idlist = map (\<lambda>i. (scan_label si, i)) [first..lst - 1];
               ids = assign ev idlist
           in if ids = [] then Inl IndexError
              else if ids \<noteq> [hd ids..last ids] then Inl AssertionError
              else Inr (ids, Some (Slice (Some (hd ids)) (Some (last ids + 1)))))
      | SplitList given \<Rightarrow> Inr (given, None))"

text \<open>
  Lines 261-280: the region of interest. Its size and centre are pixel counts
  (integers); \<open>roidim[0]/2.\<close> is then an integer or a half-integer, on which
  Python's float arithmetic is exact for any frame size, so the window is written
  over the rationals. The centre defaults to \<open>dpsize // 2\<close>.
\<close>

definition load_roislice ::
  "nat \<times> nat \<Rightarrow> (int \<times> int) option \<Rightarrow> (int \<times> int) option \<Rightarrow> subscript \<times> subscript" where
  "load_roislice dpsize roidim roictr =
     (case roidim of
        None \<Rightarrow> (Slice None None, Slice None None)
      | Some (r0, r1) \<Rightarrow>
          (let (c0, c1) =
                 (case roictr of
                    None \<Rightarrow> (int (fst dpsize div 2), int (snd dpsize div 2))
                  | Some c \<Rightarrow> c)
           in (Slice (Some \<lceil>(of_int c0 :: rat) - of_int r0 / 2\<rceil>)
                     (Some \<lceil>(of_int c0 :: rat) + of_int r0 / 2\<rceil>),
               Slice (Some \<lceil>(of_int c1 :: rat) - of_int r1 / 2\<rceil>)
                     (Some \<lceil>(of_int c1 :: rat) + of_int r1 / 2\<rceil>))))"

text \<open>
  \<open>probe_n_load\<close>, lines 293-310, together with the reads it makes of the loader
  (key and slice of each call, in order). The first argument is the number of
  nested calls the interpreter still allows: the recursion on \<open>slc[1:]\<close> does not
  stop at the empty tuple (\<open>()[1:]\<close> is \<open>()\<close>), and Python ends it with a RuntimeError,
  which none of the handlers catches. Both recursive calls leave \<open>altkey\<close> at its
  default \<open>None\<close>.
\<close>

type_synonym reads = "(string \<times> slc) list"

fun probe_n_load ::
  "(string \<Rightarrow> slc option \<Rightarrow> exn + ndarray) \<Rightarrow> nat \<Rightarrow> string option \<Rightarrow> slc \<Rightarrow> string option
     \<Rightarrow> (exn + ndarray option) \<times> reads" where
  "probe_n_load ld 0 key sl altkey = (Inl RuntimeError, [])"
| "probe_n_load ld (Suc d) None sl altkey = (Inr None, [])"
| "probe_n_load ld (Suc d) (Some k) sl altkey =
     (case ld k (Some sl) of
        Inr a \<Rightarrow> (Inr (Some a), [(k, sl)])
      | Inl e \<Rightarrow>
          if e = IndexError \<or> e = TypeError then
            (case probe_n_load ld d (Some k) (tl sl) None of (r, t) \<Rightarrow> (r, (k, sl) # t))
          else if e = KeyError then
            (case altkey of
               None \<Rightarrow> (Inr None, [(k, sl)])
             | Some ak \<Rightarrow>
                 (case probe_n_load ld d (Some ak) sl None of (r, t) \<Rightarrow> (r, (k, sl) # t)))
          else (Inl e, [(k, sl)]))"

text \<open>
  Lines 355-359, the loop over \<open>enumerate(indices)\<close> from counter \<open>k\<close> on, on the four
  lists. \<open>self.data[k]\<close> raises TypeError when \<open>data\<close> is \<open>None\<close>, \<open>self.mask.ndim\<close>
  raises AttributeError when \<open>mask\<close> is \<open>None\<close>. The lists are updated in place, so an
  exception leaves them as they are at that point.
\<close>

record views =
  v_data :: "ndarray option list"
  v_mask :: "ndarray option list"
  v_flat :: "ndarray option list"
  v_dark :: "ndarray option list"

fun populate ::
  "ndarray option \<Rightarrow> ndarray option \<Rightarrow> ndarray option \<Rightarrow> ndarray option \<Rightarrow> nat \<Rightarrow> int list
     \<Rightarrow> views \<Rightarrow> exn option \<times> views" where
  "populate d m f dk k [] v = (None, v)"
| "populate d m f dk k (i # js) v =
     (case (case d of None \<Rightarrow> Inl TypeError | Some a \<Rightarrow> getframe a k) of
        Inl e \<Rightarrow> (Some e, v)
      | Inr frame \<Rightarrow>
     (case list_setitem (v_data v) i (Some frame) of
        Inl e \<Rightarrow> (Some e, v)
      | Inr dl \<Rightarrow>
     (case (case m of
              None \<Rightarrow> Inl AttributeError
            | Some a \<Rightarrow> if ndim a = 2 then Inr a else getframe a k) of
        Inl e \<Rightarrow> (Some e, v\<lparr>v_data := dl\<rparr>)
      | Inr mframe \<Rightarrow>
     (case list_setitem (v_mask v) i (Some mframe) of
        Inl e \<Rightarrow> (Some e, v\<lparr>v_data := dl\<rparr>)
      | Inr ml \<Rightarrow>
     (case list_setitem (v_flat v) i f of
        Inl e \<Rightarrow> (Some e, v\<lparr>v_data := dl, v_mask := ml\<rparr>)
      | Inr fl \<Rightarrow>
     (case list_setitem (v_dark v) i dk of
        Inl e \<Rightarrow> (Some e, v\<lparr>v_data := dl, v_mask := ml, v_flat := fl\<rparr>)
      | Inr kl \<Rightarrow>
          populate d m f dk (Suc k) js
            \<lparr>v_data = dl, v_mask = ml, v_flat = fl, v_dark = kl\<rparr>))))))"

text \<open>
  \<open>load\<close>, lines 190-359: the exception that leaves it (if any), the object as it
  is then, and the reads made of the loader.
\<close>

definition set_views :: "views \<Rightarrow> datascan \<Rightarrow> datascan" where
  "set_views v s =
     s\<lparr>datalist := Some (v_data v), masklist := Some (v_mask v),
       flatlist := Some (v_flat v), darklist := Some (v_dark v)\<rparr>"

text \<open>Lines 345-348: the four arrays, each assigned as soon as it is read.\<close>

definition load_arrays ::
  "(string \<Rightarrow> slc option \<Rightarrow> exn + ndarray) \<Rightarrow> nat \<Rightarrow> slc \<Rightarrow> datascan
     \<Rightarrow> exn option \<times> datascan \<times> reads" where
  "load_arrays ld depth sl s1 =
     (case probe_n_load ld depth (Some ''data'') sl None of
        (Inl e, t1) \<Rightarrow> (Some e, s1, t1)
      | (Inr d, t1) \<Rightarrow>
     (case probe_n_load ld depth (Some ''mask'') sl (Some ''fmask'') of
        (Inl e, t2) \<Rightarrow> (Some e, s1\<lparr>data := Some d\<rparr>, t1 @ t2)
      | (Inr m, t2) \<Rightarrow>
     (case probe_n_load ld depth (Some ''dark'') sl None of
        (Inl e, t3) \<Rightarrow> (Some e, s1\<lparr>data := Some d, mask := Some m\<rparr>, t1 @ t2 @ t3)
      | (Inr dk, t3) \<Rightarrow>
     (case probe_n_load ld depth (Some ''flat'') sl None of
        (Inl e, t4) \<Rightarrow>
          (Some e, s1\<lparr>data := Some d, mask := Some m, dark := Some dk\<rparr>, t1 @ t2 @ t3 @ t4)
      | (Inr f, t4) \<Rightarrow>
          (None, s1\<lparr>data := Some d, mask := Some m, dark := Some dk, flat := Some f\<rparr>,
           t1 @ t2 @ t3 @ t4)))))"

text \<open>Lines 350-359: the four lists of \<open>Nframes\<close> entries \<open>None\<close>, then the loop.\<close>

definition load_views :: "int \<Rightarrow> int list \<Rightarrow> datascan \<Rightarrow> exn option \<times> datascan" where
  "load_views nframes ids s =
     (let blank = replicate (nat nframes) None;
          v0 = \<lparr>v_data = blank, v_mask = blank, v_flat = blank, v_dark = blank\<rparr>
      in (case (data s, mask s, flat s, dark s) of
            (Some d, Some m, Some f, Some dk) \<Rightarrow>
              (case populate d m f dk 0 ids v0 of (r, v) \<Rightarrow> (r, set_views v s))
          | _ \<Rightarrow> (Some AttributeError, set_views v0 s)))"

definition load ::
  "env \<Rightarrow> datascan \<Rightarrow> int \<Rightarrow> int option \<Rightarrow> (int \<times> int) option \<Rightarrow> (int \<times> int) option \<Rightarrow> split
     \<Rightarrow> exn option \<times> datascan \<times> reads" where
  "load ev s first last_arg roidim roictr MPIsplit =
     (case shape (scan_info s) of (n, h, w) \<Rightarrow>
     (let lst = (case last_arg of None \<Rightarrow> int n | Some l \<Rightarrow> l);
          nframes = lst - first
      in
      if \<not> nframes > 0 then (Some AssertionError, s, [])
      else
     (case load_indices ev (scan_info s) first lst MPIsplit of
        Inl e \<Rightarrow> (Some e, s, [])
      | Inr (ids, fslice) \<Rightarrow>
     (let s1 = s\<lparr>indices := Some ids, Nframes := Some nframes, frame_slice := Some fslice,
                 asize := Some (case roidim of None \<Rightarrow> (int h, int w) | Some r \<Rightarrow> r)\<rparr>;
          roislice = load_roislice (h, w) roidim roictr;
          sl = (case fslice of Some fs \<Rightarrow> fs | None \<Rightarrow> IntTuple ids)
                 # [fst roislice, snd roislice]
      in
     (case load_arrays (loader ev s1) (recursion_depth ev) sl s1 of
        (Some e, s2, t) \<Rightarrow> (Some e, s2, t)
      | (None, s2, t) \<Rightarrow>
          (case load_views nframes ids s2 of (r, s3) \<Rightarrow> (r, s3, t)))))))"

subsection \<open>DataScan.unload_data, save and as_data_package\<close>

text \<open>
  \<open>unload_data\<close>, lines 363-370: the two \<open>del\<close> statements delete their targets from
  left to right; a target that is not there raises AttributeError.
\<close>

definition del_attr ::
  "(datascan \<Rightarrow> 'a option) \<Rightarrow> (datascan \<Rightarrow> datascan) \<Rightarrow> exn option \<times> datascan
     \<Rightarrow> exn option \<times> datascan" where
  "del_attr attr clear r =
     (case r of
        (Some e, s) \<Rightarrow> (Some e, s)
      | (None, s) \<Rightarrow> if attr s = None then (Some AttributeError, s) else (None, clear s))"

definition unload_data :: "datascan \<Rightarrow> exn option \<times> datascan" where
  "unload_data s =
     del_attr flat (\<lambda>s. s\<lparr>flat := None\<rparr>)
    (del_attr dark (\<lambda>s. s\<lparr>dark := None\<rparr>)
    (del_attr mask (\<lambda>s. s\<lparr>mask := None\<rparr>)
    (del_attr data (\<lambda>s. s\<lparr>data := None\<rparr>)
    (del_attr flatlist (\<lambda>s. s\<lparr>flatlist := None\<rparr>)
    (del_attr darklist (\<lambda>s. s\<lparr>darklist := None\<rparr>)
    (del_attr masklist (\<lambda>s. s\<lparr>masklist := None\<rparr>)
    (del_attr datalist (\<lambda>s. s\<lparr>datalist := None\<rparr>) (None, s))))))))"

text \<open>
  What \<open>save\<close> leaves outside the object: the files written by \<open>io.h5write\<close>, the
  warnings logged and the questions put to the user.
\<close>

record saved =
  sv_data :: ndarray
  sv_mask :: "ndarray option"
  sv_flat :: "ndarray option"
  sv_dark :: "ndarray option"
  sv_info :: scan_info

record world =
  written :: "(string \<times> saved) list"
  warnings :: "string list"
  prompts :: "string list"

text \<open>Python's truth value of \<open>force_overwrite\<close>: \<open>True\<close>, \<open>False\<close> or \<open>None\<close>.\<close>

fun truthy :: "bool option \<Rightarrow> bool" where
  "truthy (Some b) = b"
| "truthy None = False"

text \<open>\<open>len(a)\<close> of an array: its first dimension; an array without axes has no length.\<close>

definition array_len :: "ndarray \<Rightarrow> exn + nat" where
  "array_len a = (case arr_shape a of [] \<Rightarrow> Inl TypeError | n # sh \<Rightarrow> Inr n)"

text \<open>\<open>str.upper\<close>, character by character.\<close>

definition upper :: "char \<Rightarrow> char" where
  "upper c =
     (let n = (of_char c :: nat) in if 97 \<le> n \<and> n \<le> 122 then char_of (n - 32) else c)"

text \<open>Lines 461-470: the destination exists.\<close>

definition save_overwrite :: "env \<Rightarrow> world \<Rightarrow> string \<Rightarrow> bool option \<Rightarrow> exn option \<times> world" where
  "save_overwrite ev w filename force_overwrite =
     (if path_exists ev filename then
        (if truthy force_overwrite then
           (None, w\<lparr>warnings := warnings w @
              [''Save file exists but will be overwritten (force_overwrite is True)'']\<rparr>)
         else if \<not> truthy force_overwrite then (Some RuntimeError, w)
         else if force_overwrite = None then
           (let question = ''File '' @ filename @ '' exists! Overwrite? [Y]/N'';
                ans = raw_input ev question;
                w' = w\<lparr>prompts := prompts w @ [question]\<rparr>
            in if ans \<noteq> [] \<and> map upper ans \<noteq> ''Y''
               then (Some RuntimeError, w') else (None, w'))
         else (None, w))
      else (None, w))"

text \<open>
  \<open>save\<close>, lines 372-480. The local \<open>Nframes\<close> is bound only at line 399, on the path
  where the lengths differ and MPI is off; under MPI line 402 therefore raises
  UnboundLocalError and the gather loops of lines 402-435 are never entered.
  \<open>clean_path\<close> is from \<open>ptypy.utils\<close>; applied to \<open>None\<close> (no file name given and
  none in \<open>scan_info\<close>) it is taken to raise.
\<close>

definition save ::
  "env \<Rightarrow> world \<Rightarrow> datascan \<Rightarrow> string option \<Rightarrow> bool option \<Rightarrow> exn option \<times> world" where
  "save ev w s filename force_overwrite =
     (case data s of
        None \<Rightarrow> (Some RuntimeError, w)
      | Some None \<Rightarrow> (Some TypeError, w)
      | Some (Some d) \<Rightarrow>
     (case array_len d of
        Inl e \<Rightarrow> (Some e, w)
      | Inr len_data \<Rightarrow>
     (case datalist s of
        None \<Rightarrow> (Some AttributeError, w)
      | Some dl \<Rightarrow>
          if len_data \<noteq> length dl \<and> MPIenabled ev then (Some RuntimeError, w)
          else if MPIenabled ev then (Some UnboundLocalError, w)
          else if rank ev > 0 then (None, w)
          else
     (case mask s of
        None \<Rightarrow> (Some AttributeError, w)
      | Some m \<Rightarrow>
          if arr_shape d \<noteq> shape_list (scan_info s) then (Some RuntimeError, w)
          else
     (case (case filename of None \<Rightarrow> data_filename (scan_info s) | Some f \<Rightarrow> Some f) of
        None \<Rightarrow> (Some AttributeError, w)
      | Some f \<Rightarrow>
     (case save_overwrite ev w (clean_path ev f) force_overwrite of
        (Some e, w1) \<Rightarrow> (Some e, w1)
      | (None, w1) \<Rightarrow>
     (case (flat s, dark s) of
        (Some fl, Some dk) \<Rightarrow>
          (None, w1\<lparr>written := written w1 @
             [(clean_path ev f,
               \<lparr>sv_data = d, sv_mask = m, sv_flat = fl, sv_dark = dk,
                sv_info = scan_info s\<rparr>)]\<rparr>)
      | _ \<Rightarrow> (Some AttributeError, w1))))))))"

text \<open>
  A Python dictionary whose order plays no part (\<open>outdict.common\<close>) is the list of
  its entries, one per key.
\<close>

fun dict_set :: "'k \<Rightarrow> 'v \<Rightarrow> ('k \<times> 'v) list \<Rightarrow> ('k \<times> 'v) list" where
  "dict_set k v [] = [(k, v)]"
| "dict_set k v ((k', v') # kvs) =
     (if k = k' then (k, v) # kvs else (k', v') # dict_set k v kvs)"

text \<open>
  \<open>MetaTranslator\<close>, lines 644-694: \<open>to_meta_dct\<close> maps every key of
  \<open>DEFAULT_scan_info\<close> to itself, but for the keys of \<open>PAIRS\<close>; \<open>as_meta\<close> of a
  dictionary renames its keys and skips those \<open>to_meta_dct\<close> does not know.
\<close>

definition PAIRS :: "(string \<times> string) list" where
  "PAIRS =
     [(''scan_label'', ''label_original''), (''wavelength'', ''lam''),
      (''detector_distance'', ''z''), (''detector_pixel_size'', ''psize_det'')]"

definition scan_info_items :: "scan_info \<Rightarrow> (string \<times> pyval) list" where
  "scan_info_items si =
     [(''scan_label'', PStr (scan_label si)),
      (''data_filename'', (case data_filename si of None \<Rightarrow> PNone | Some f \<Rightarrow> PStr f)),
      (''shape'', PShape (shape si)),
      (''positions'', (case positions si of None \<Rightarrow> PNone | Some ps \<Rightarrow> PPos ps))]
     @ others si"

definition to_meta_dct :: "string \<Rightarrow> string option" where
  "to_meta_dct k =
     (if k \<in> fst ` set (scan_info_items DEFAULT_scan_info)
      then Some (case map_of PAIRS k of None \<Rightarrow> k | Some k' \<Rightarrow> k')
      else None)"

definition as_meta :: "(string \<times> pyval) list \<Rightarrow> (string \<times> pyval) list" where
  "as_meta items =
     fold (\<lambda>(k, v) new. case to_meta_dct k of None \<Rightarrow> new | Some newk \<Rightarrow> dict_set newk v new)
       items []"

text \<open>\<open>xs[i]\<close> on a Python list.\<close>

definition list_getitem :: "'a list \<Rightarrow> int \<Rightarrow> exn + 'a" where
  "list_getitem xs i =
     (case int_position (length xs) i of Inl e \<Rightarrow> Inl e | Inr p \<Rightarrow> Inr (xs ! p))"

text \<open>\<open>as_data_package\<close>, lines 482-501: one entry per index of \<open>range(start, stop)\<close>.\<close>

record frame_entry =
  e_data :: "ndarray option"
  e_mask :: "ndarray option"
  e_index :: int
  e_position :: "rat \<times> rat"

record package =
  common :: "(string \<times> pyval) list"
  iterable :: "frame_entry list"

fun package_entries :: "datascan \<Rightarrow> int list \<Rightarrow> exn + frame_entry list" where
  "package_entries s [] = Inr []"
| "package_entries s (i # js) =
     (case datalist s of None \<Rightarrow> Inl AttributeError | Some dl \<Rightarrow>
     (case list_getitem dl i of Inl e \<Rightarrow> Inl e | Inr d \<Rightarrow>
     (case masklist s of None \<Rightarrow> Inl AttributeError | Some ml \<Rightarrow>
     (case list_getitem ml i of Inl e \<Rightarrow> Inl e | Inr m \<Rightarrow>
     (case positions (scan_info s) of None \<Rightarrow> Inl TypeError | Some ps \<Rightarrow>
     (case list_getitem ps i of Inl e \<Rightarrow> Inl e | Inr pos \<Rightarrow>
     (case package_entries s js of Inl e \<Rightarrow> Inl e | Inr es \<Rightarrow>
        Inr (\<lparr>e_data = d, e_mask = m, e_index = i, e_position = pos\<rparr> # es))))))))"

definition as_data_package :: "datascan \<Rightarrow> int \<Rightarrow> int option \<Rightarrow> exn + package" where
  "as_data_package s start stop_arg =
     (case Nframes s of
        None \<Rightarrow> Inl AttributeError
      | Some nf \<Rightarrow>
     (let stop = (case stop_arg of None \<Rightarrow> nf | Some st \<Rightarrow> if st > nf then nf else st)
      in (case package_entries s [start..stop - 1] of
            Inl e \<Rightarrow> Inl e
          | Inr es \<Rightarrow>
              Inr \<lparr>common = dict_set ''label'' (PStr (label s))
                               (as_meta (scan_info_items (scan_info s))),
                   iterable = es\<rparr>)))"

subsection \<open>The dictionary of scans\<close>

text \<open>
  \<open>self.scans\<close> is a Python 2 \<open>dict\<close> with string keys, and \<open>feed_data\<close> walks it with
  \<open>iteritems\<close>: in the order of the slots of CPython's hash table, not in the order
  of insertion. The table is modelled as CPython 2.7 builds it (64-bit, hash
  randomisation off, its default): \<open>string_hash\<close> of stringobject.c, the probe
  sequence and the resizing rule of dictobject.c. Nothing is ever deleted from
  \<open>self.scans\<close>, so a slot is free or holds a key.
\<close>

definition string_hash :: "string \<Rightarrow> 64 word" where
  "string_hash s =
     (if s = [] then 0
      else
        (let x0 = push_bit 7 (of_char (hd s));
             x1 = fold (\<lambda>c x. (1000003 * x) XOR of_char c) s x0;
             x2 = x1 XOR of_nat (length s)
         in if x2 = - 1 then - 2 else x2))"

type_synonym keytable = "string option list"

text \<open>
  The slot of a key: \<open>lookdict_string\<close>, from slot \<open>hash & mask\<close> on
  \<open>i = (i << 2) + i + perturb + 1\<close> with \<open>perturb >>= 5\<close>, until a free slot or the key.
  The first argument bounds the number of probes; the table always has a free slot.
\<close>

fun lookdict :: "nat \<Rightarrow> keytable \<Rightarrow> string \<Rightarrow> 64 word \<Rightarrow> 64 word \<Rightarrow> nat option" where
  "lookdict 0 tab key i perturb = None"
| "lookdict (Suc n) tab key i perturb =
     (let slot = unat (i AND of_nat (length tab - 1)) in
      case tab ! slot of
        None \<Rightarrow> Some slot
      | Some k \<Rightarrow>
          if k = key then Some slot
          else lookdict n tab key (push_bit 2 i + i + perturb + 1) (drop_bit 5 perturb))"

definition insertdict :: "keytable \<Rightarrow> string \<Rightarrow> keytable" where
  "insertdict tab key =
     (let h = string_hash key in
      case lookdict (13 + 2 * length tab) tab key (h AND of_nat (length tab - 1)) h of
        None \<Rightarrow> tab
      | Some slot \<Rightarrow> tab[slot := Some key])"

definition table_keys :: "keytable \<Rightarrow> string list" where
  "table_keys tab = concat (map (\<lambda>e. case e of None \<Rightarrow> [] | Some k \<Rightarrow> [k]) tab)"

text \<open>\<open>dictresize\<close>: the smallest power of two above \<open>minused\<close>, at least 8.\<close>

fun newsize :: "nat \<Rightarrow> nat \<Rightarrow> nat \<Rightarrow> nat" where
  "newsize 0 sz minused = sz"
| "newsize (Suc n) sz minused = (if sz \<le> minused then newsize n (2 * sz) minused else sz)"

definition dictresize :: "keytable \<Rightarrow> nat \<Rightarrow> keytable" where
  "dictresize tab minused =
     fold (\<lambda>k t. insertdict t k) (table_keys tab) (replicate (newsize minused 8 minused) None)"

definition insert_key :: "keytable \<Rightarrow> string \<Rightarrow> keytable" where
  "insert_key tab key =
     (let n_used = length (table_keys tab);
          tab' = insertdict tab key;
          used = length (table_keys tab')
      in if used > n_used \<and> used * 3 \<ge> length tab' * 2
         then dictresize tab' ((if used > 50000 then 2 else 4) * used)
         else tab')"

record 'v pydict =
  slots :: keytable
  entries :: "string \<Rightarrow> 'v option"

definition new_dict :: "'v pydict" where
  "new_dict = \<lparr>slots = replicate 8 None, entries = (\<lambda>k. None)\<rparr>"

definition dict_setitem :: "'v pydict \<Rightarrow> string \<Rightarrow> 'v \<Rightarrow> 'v pydict" where
  "dict_setitem d key v = \<lparr>slots = insert_key (slots d) key, entries = (entries d)(key \<mapsto> v)\<rparr>"

definition dict_getitem :: "'v pydict \<Rightarrow> string \<Rightarrow> exn + 'v" where
  "dict_getitem d key = (case entries d key of None \<Rightarrow> Inl KeyError | Some v \<Rightarrow> Inr v)"

definition dict_keys :: "'v pydict \<Rightarrow> string list" where
  "dict_keys d = table_keys (slots d)"

text \<open>An object held by the dictionary is changed in place; the table is not touched.\<close>

definition dict_update :: "'v pydict \<Rightarrow> string \<Rightarrow> 'v \<Rightarrow> 'v pydict" where
  "dict_update d key v = d\<lparr>entries := (entries d)(key \<mapsto> v)\<rparr>"

subsection \<open>StaticDataSource\<close>

text \<open>
  \<open>DS.label % {'idx': i}\<close>, for the conversions a label uses: \<open>%(idx)02d\<close> (the index
  in two digits at least) and \<open>%%\<close>. Any other conversion is taken to raise
  ValueError.
\<close>

fun digits :: "nat \<Rightarrow> string" where
  "digits n =
     (if n < 10 then [char_of (48 + n)] else digits (n div 10) @ [char_of (48 + n mod 10)])"

fun format_idx :: "string \<Rightarrow> nat \<Rightarrow> exn + string" where
  "format_idx [] i = Inr []"
| "format_idx (c # cs) i =
     (if c \<noteq> CHR ''%'' then
        (case format_idx cs i of Inl e \<Rightarrow> Inl e | Inr r \<Rightarrow> Inr (c # r))
      else if take 8 cs = ''(idx)02d'' then
        (case format_idx (drop 8 cs) i of
           Inl e \<Rightarrow> Inl e
         | Inr r \<Rightarrow> Inr ((if i < 10 then ''0'' else []) @ digits i @ r))
      else if take 1 cs = ''%'' then
        (case format_idx (drop 1 cs) i of Inl e \<Rightarrow> Inl e | Inr r \<Rightarrow> Inr (CHR ''%'' # r))
      else Inl ValueError)"

record static_source =
  sources :: "source list"
  recon_labels :: "string option list"
  scans :: "datascan pydict"
  labels :: "string list"
  total_Nframes :: nat
  data_available :: bool
  count :: nat

text \<open>
  The loop of \<open>__init__\<close>, lines 528-549, from index \<open>i\<close> on. \<open>self.labels\<close> stays
  empty (nothing appends to it: line 543 is a comment), and is passed as it is.
  Line 540 would format its message with the name \<open>scan_label\<close>, which no scope
  binds: NameError.
\<close>

fun init_scans ::
  "env \<Rightarrow> nat \<Rightarrow> source list \<Rightarrow> pars option list \<Rightarrow> string option list \<Rightarrow> string list
     \<Rightarrow> datascan pydict \<times> nat \<Rightarrow> exn + datascan pydict \<times> nat" where
  "init_scans ev i [] pars_list rlabels lbls acc = Inr acc"
| "init_scans ev i (src # srcs) pars_list rlabels lbls (scns, nf) =
     (if \<not> i < length pars_list then Inl IndexError
      else
     (case DataScan_init ev (pars_list ! i) NoSource None of
        Inl e \<Rightarrow> Inl e
      | Inr ds0 \<Rightarrow>
     (case set_source ev ds0 src of
        (Some e, ds) \<Rightarrow> Inl e
      | (None, ds) \<Rightarrow>
     (case (case (if i < length rlabels then rlabels ! i else None) of
              None \<Rightarrow> format_idx (label ds) i
            | Some l \<Rightarrow> if l \<in> set lbls then format_idx (label ds) i else Inr l) of
        Inl e \<Rightarrow> Inl e
      | Inr lab \<Rightarrow>
          if lab \<in> set lbls then Inl NameError
          else init_scans ev (Suc i) srcs pars_list rlabels lbls
                 (dict_setitem scns lab (ds\<lparr>label := lab\<rparr>),
                  nf + fst (shape (scan_info ds)))))))"

definition StaticDataSource_init ::
  "env \<Rightarrow> source list \<Rightarrow> pars option list \<Rightarrow> string option list \<Rightarrow> exn + static_source" where
  "StaticDataSource_init ev srcs pars_list rlabels =
     (case init_scans ev 0 srcs pars_list rlabels [] (new_dict, 0) of
        Inl e \<Rightarrow> Inl e
      | Inr (scns, nf) \<Rightarrow>
          Inr \<lparr>sources = srcs, recon_labels = rlabels, scans = scns, labels = [],
               total_Nframes = nf, data_available = (nf > 0), count = 0\<rparr>)"

text \<open>
  \<open>feed_data\<close>, lines 559-580, is a generator. Its state between two calls of
  \<open>next\<close>: not started; suspended at the \<open>yield\<close> for one scan, with the keys
  \<open>iteritems\<close> has still to give; finished. \<open>feed_next\<close> is one call of \<open>next\<close>: the
  batch yielded (\<open>None\<close> when the generator is exhausted) or the exception raised,
  the data source and the generator afterwards. \<open>DS.load()\<close> is \<open>load\<close> with its
  defaults.
\<close>

datatype feed = NotStarted | Suspended string "string list" | Finished

definition feed_advance ::
  "env \<Rightarrow> static_source \<Rightarrow> string list \<Rightarrow> (exn + package option) \<times> static_source \<times> feed" where
  "feed_advance ev src keys =
     (case keys of
        [] \<Rightarrow> (Inr None, src\<lparr>data_available := False\<rparr>, Finished)
      | lab # rest \<Rightarrow>
     (case dict_getitem (scans src) lab of
        Inl e \<Rightarrow> (Inl e, src, Finished)
      | Inr ds \<Rightarrow>
     (case load ev ds 0 None None None SplitTrue of
        (Some e, ds', t) \<Rightarrow> (Inl e, src\<lparr>scans := dict_update (scans src) lab ds'\<rparr>, Finished)
      | (None, ds', t) \<Rightarrow>
     (case as_data_package ds' 0 None of
        Inl e \<Rightarrow> (Inl e, src\<lparr>scans := dict_update (scans src) lab ds'\<rparr>, Finished)
      | Inr outdict \<Rightarrow>
          (Inr (Some outdict), src\<lparr>scans := dict_update (scans src) lab ds'\<rparr>,
           Suspended lab rest)))))"

definition feed_next ::
  "env \<Rightarrow> static_source \<Rightarrow> feed \<Rightarrow> (exn + package option) \<times> static_source \<times> feed" where
  "feed_next ev src g =
     (case g of
        NotStarted \<Rightarrow> feed_advance ev src (dict_keys (scans src))
      | Suspended lab rest \<Rightarrow>
          (case dict_getitem (scans src) lab of
             Inl e \<Rightarrow> (Inl e, src, Finished)
           | Inr ds \<Rightarrow>
               (case unload_data ds of
                  (Some e, ds') \<Rightarrow>
                    (Inl e, src\<lparr>scans := dict_update (scans src) lab ds'\<rparr>, Finished)
                | (None, ds') \<Rightarrow>
                    feed_advance ev (src\<lparr>scans := dict_update (scans src) lab ds'\<rparr>) rest))
      | Finished \<Rightarrow> (Inr None, src, Finished))"

subsection \<open>PseudoDynamicDataSource\<close>

text \<open>
  The names bound at module level when a \<open>PseudoDynamicDataSource\<close> is constructed,
  and the attributes of a DataScan (the methods of the class and what \<open>__init__\<close>,
  \<open>set_source\<close> and \<open>load\<close> set). The class \<open>DynamicDataSource\<close> exists only inside a
  string literal (lines 695-769).
\<close>

definition module_globals :: "string list" where
  "module_globals =
     [''Thread'', ''Event'', ''time'', ''os'', ''np'', ''copy'', ''expect2'', ''clean_path'',
      ''mass_center'', ''parallel'', ''logger'', ''io'', ''u'', ''__all__'',
      ''DEFAULT_scan_info'', ''DEFAULT_DATA'', ''DataScan'', ''StaticDataSource'',
      ''PseudoDynamicDataSource'', ''DEFAULT'', ''make_datasource'', ''MetaTranslator'', ''MT'']"

definition DataScan_attributes :: "string list" where
  "DataScan_attributes =
     [''DEFAULT_scan_info'', ''__init__'', ''set_source'', ''load'', ''unload_data'', ''save'',
      ''as_data_package'', ''data'', ''mask'', ''flat'', ''dark'', ''datalist'', ''masklist'',
      ''flatlist'', ''darklist'', ''indices'', ''scan_info'', ''label'', ''sink'', ''source'',
      ''loader'', ''Nframes'', ''frame_slice'', ''asize'']"

record pseudo_source = static_source +
  ppc :: int
  calls :: int
  frame_count :: int

text \<open>
  \<open>__init__\<close>, lines 590-596. Line 591 evaluates the name \<open>DynamicDataSource\<close> first
  (NameError when the module does not bind it); the call it then makes passes two
  arguments to \<open>StaticDataSource.__init__\<close>, which takes three (TypeError). The
  lines after it are not reached either way.
\<close>

definition PseudoDynamicDataSource_init ::
  "env \<Rightarrow> source list \<Rightarrow> bool \<Rightarrow> int \<Rightarrow> exn + pseudo_source" where
  "PseudoDynamicDataSource_init ev filelist unique_scan_labels patterns_per_call =
     (if ''DynamicDataSource'' \<notin> set module_globals then Inl NameError else Inl TypeError)"

text \<open>
  \<open>feed_data\<close>, lines 598-619, one call of \<open>next\<close> as above. For each scan the first
  statement is \<open>DS.load_data()\<close>, line 603: the attribute lookup raises
  AttributeError when a DataScan has no \<open>load_data\<close>, and if it had one the model
  has no code for it (the module defines none); lines 606-614 are reached in
  neither case.
\<close>

definition pseudo_feed_advance ::
  "pseudo_source \<Rightarrow> string list \<Rightarrow> (exn + package option) \<times> pseudo_source \<times> feed" where
  "pseudo_feed_advance src keys =
     (case keys of
        [] \<Rightarrow>
          (Inr None, src\<lparr>data_available := (frame_count src < int (total_Nframes src))\<rparr>,
           Finished)
      | lab # rest \<Rightarrow>
          (case dict_getitem (scans src) lab of
             Inl e \<Rightarrow> (Inl e, src, Finished)
           | Inr ds \<Rightarrow>
               if ''load_data'' \<notin> set DataScan_attributes
               then (Inl AttributeError, src, Finished)
               else (Inl TypeError, src, Finished)))"

definition pseudo_feed_next ::
  "pseudo_source \<Rightarrow> feed \<Rightarrow> (exn + package option) \<times> pseudo_source \<times> feed" where
  "pseudo_feed_next src g =
     (case g of
        NotStarted \<Rightarrow> pseudo_feed_advance src (dict_keys (scans src))
      | Suspended lab rest \<Rightarrow>
          (case dict_getitem (scans src) lab of
             Inl e \<Rightarrow> (Inl e, src, Finished)
           | Inr ds \<Rightarrow>
               (case unload_data ds of
                  (Some e, ds') \<Rightarrow>
                    (Inl e, src\<lparr>scans := dict_update (scans src) lab ds'\<rparr>, Finished)
                | (None, ds') \<Rightarrow>
                    pseudo_feed_advance (src\<lparr>scans := dict_update (scans src) lab ds'\<rparr>) rest))
      | Finished \<Rightarrow> (Inr None, src, Finished))"

subsection \<open>Objects that were never given data\<close>

text \<open>
  A DataScan as \<open>__init__\<close> returns it, and whatever \<open>set_source\<close>, \<open>unload_data\<close> and
  assignments to \<open>mask\<close>, \<open>flat\<close>, \<open>dark\<close> and \<open>scan_info\<close> make of it afterwards
  (\<open>save\<close> and \<open>as_data_package\<close> leave the object as it is): \<open>load\<close> was never run on
  it and nothing was assigned to its attribute \<open>data\<close>.
\<close>

inductive never_loaded :: "env \<Rightarrow> datascan \<Rightarrow> bool" for ev :: env where
  fresh: "DataScan_init ev pars src snk = Inr s \<Longrightarrow> never_loaded ev s"
| after_set_source: "never_loaded ev s \<Longrightarrow> set_source ev s src = (r, s') \<Longrightarrow> never_loaded ev s'"
| after_unload: "never_loaded ev s \<Longrightarrow> unload_data s = (r, s') \<Longrightarrow> never_loaded ev s'"
| mask_assigned: "never_loaded ev s \<Longrightarrow> never_loaded ev (s\<lparr>mask := Some m\<rparr>)"
| flat_assigned: "never_loaded ev s \<Longrightarrow> never_loaded ev (s\<lparr>flat := Some f\<rparr>)"
| dark_assigned: "never_loaded ev s \<Longrightarrow> never_loaded ev (s\<lparr>dark := Some k\<rparr>)"
| info_assigned: "never_loaded ev s \<Longrightarrow> never_loaded ev (s\<lparr>scan_info := si\<rparr>)"

subsection \<open>Example objects\<close>

text \<open>
  A run of one process without MPI, on a file system with no file; the partition
  gives the single process every position of the list.
\<close>

definition single_process :: env where
  "single_process =
     \<lparr> h5read = (\<lambda>f k sl. Inl IOError), h5read_info = (\<lambda>f. Inl IOError),
       assign = (\<lambda>idlist. map int [0..<length idlist]), rank = 0, master = True,
       MPIenabled = False, recursion_depth = 900, clean_path = (\<lambda>p. p),
       path_exists = (\<lambda>p. False), raw_input = (\<lambda>p. []) \<rparr>"

text \<open>
  A scan of two frames of 2 x 2 pixels held in a dictionary the legacy way: the mask
  is one 2-D frame stored under \<open>fmask\<close>, and there is neither dark nor flat.
\<close>

definition legacy_scan :: datascan where
  "legacy_scan =
     \<lparr> data = Some None, mask = Some None, flat = Some None, dark = Some None,
       datalist = Some [], masklist = Some [], flatlist = Some [], darklist = Some [],
       indices = None, Nframes = None, frame_slice = None, asize = None,
       scan_info = DEFAULT_scan_info\<lparr>shape := (2, 2, 2)\<rparr>, label = ''Scan%(idx)02d'',
       sink = DictSource [(''data'', np_zeros [2, 2, 2]), (''fmask'', np_ones [2, 2])] None,
       source = DictSource [(''data'', np_zeros [2, 2, 2]), (''fmask'', np_ones [2, 2])] None,
       loader_attr = Some DictLoader \<rparr>"

text \<open>
  The same scan with its mask stored as a single number: an array without axes, which
  no subscript but the empty tuple fits.
\<close>

definition scalar_scan :: datascan where
  "scalar_scan =
     legacy_scan
       \<lparr>sink := DictSource [(''data'', np_zeros [2, 2, 2]), (''mask'', NDArray [] [1])] None,
        source := DictSource [(''data'', np_zeros [2, 2, 2]), (''mask'', NDArray [] [1])] None\<rparr>"

text \<open>A scan of two frames of one pixel with no source, its positions given.\<close>

definition tiny_pars :: pars where
  "tiny_pars si = si\<lparr>shape := (2, 1, 1), positions := Some [(0, 0), (1, 0)]\<rparr>"

definition tiny_scan :: datascan where
  "tiny_scan =
     \<lparr> data = Some None, mask = Some None, flat = Some None, dark = Some None,
       datalist = Some [], masklist = Some [], flatlist = Some [], darklist = Some [],
       indices = None, Nframes = None, frame_slice = None, asize = None,
       scan_info = tiny_pars DEFAULT_scan_info, label = ''Scan%(idx)02d'',
       sink = NoSource, source = NoSource, loader_attr = Some EmptyLoader \<rparr>"

text \<open>
  The scan of two frames with data and mask attached by assignment, the use the
  docstring of the module describes (lines 5-9: a reduction routine creates an empty
  DataScan, stores information in it and calls \<open>save\<close>) and for which \<open>save\<close> has the
  branch of lines 395-399.
\<close>

definition attached_scan :: datascan where
  "attached_scan =
     tiny_scan\<lparr>data := Some (Some (np_zeros [2, 1, 1])), mask := Some (Some (np_ones [2, 1, 1]))\<rparr>"

text \<open>A scan of one frame of 10 x 10 pixels with no source.\<close>

definition roi_scan :: datascan where
  "roi_scan = tiny_scan\<lparr>scan_info := DEFAULT_scan_info\<lparr>shape := (1, 10, 10)\<rparr>\<rparr>"

text \<open>
  The scan of two frames after \<open>load(MPIsplit=False)\<close>, and the outside world before
  anything was saved.
\<close>

definition loaded_scan :: datascan where
  "loaded_scan = fst (snd (load single_process tiny_scan 0 None None None SplitFalse))"

definition no_world :: world where
  "no_world = \<lparr>written = [], warnings = [], prompts = []\<rparr>"

text \<open>
  An environment in which every path exists and the user answers \<open>Y\<close> to any
  question.
\<close>

definition file_exists :: env where
  "file_exists = single_process\<lparr>path_exists := (\<lambda>p. True), raw_input := (\<lambda>q. ''Y'')\<rparr>"

text \<open>
  A data source of two scans without source and without labels of their own, in
  the order in which \<open>__init__\<close> receives them.
\<close>

definition two_scans :: "exn + static_source" where
  "two_scans =
     StaticDataSource_init single_process [NoSource, NoSource]
       [Some tiny_pars, Some tiny_pars] []"

text \<open>
  The object \<open>PseudoDynamicDataSource.__init__\<close> is written to build for one scan
  of twelve frames and five patterns per call.
\<close>

definition twelve_pars :: pars where
  "twelve_pars si = si\<lparr>shape := (12, 1, 1), positions := Some (replicate 12 (0, 0))\<rparr>"

definition chunked_source :: pseudo_source where
  "chunked_source =
     \<lparr> sources = [NoSource], recon_labels = [],
       scans = dict_setitem new_dict ''Scan00''
                 (tiny_scan\<lparr>scan_info := twelve_pars DEFAULT_scan_info, label := ''Scan00''\<rparr>),
       labels = [], total_Nframes = 12, data_available = True, count = 0,
       ppc = 5, calls = 0, frame_count = 0 \<rparr>"

text \<open>Three full slices: what \<open>load\<close> asks for without a region of interest.\<close>

definition full_slice :: slc where
  "full_slice = [Slice None None, Slice None None, Slice None None]"

section \<open>Properties\<close>

subsection \<open>Array indexing\<close>

lemma int_positions_error: "int_positions n js = Inl e \<Longrightarrow> e = IndexError"
  by (induction js arbitrary: e) (auto split: if_splits sum.splits)

lemma axis_positions_error: "axis_positions n ix = Inl e \<Longrightarrow> e = IndexError"
  by (cases ix) (auto simp: Let_def dest: int_positions_error)

lemma index_positions_error: "index_positions sh sl = Inl e \<Longrightarrow> e = IndexError"
  by (induction sh sl arbitrary: e rule: index_positions.induct)
     (auto split: sum.splits dest: axis_positions_error)

lemma index_positions_too_many:
  "length sh < length sl \<Longrightarrow> index_positions sh sl = Inl IndexError"
proof (induction sh sl rule: index_positions.induct)
  case (3 n sh ix ixs)
  then show ?case by (auto split: sum.splits dest: axis_positions_error)
qed auto

lemma getitem_too_many: "ndim a < length sl \<Longrightarrow> getitem a sl = Inl IndexError"
  by (simp add: getitem_def ndim_def index_positions_too_many)

lemma getitem_error: "getitem a sl = Inl e \<Longrightarrow> e = IndexError"
  by (auto simp: getitem_def split: sum.splits dest: index_positions_error)

lemma getitem_slices_2d:
  assumes "ndim a = 2"
  shows "\<exists>b. getitem a [Slice r1 r2, Slice c1 c2] = Inr b \<and> ndim b = 2"
proof -
  from assms obtain h w where "arr_shape a = [h, w]"
    by (cases "arr_shape a"; cases "tl (arr_shape a)") (auto simp: ndim_def)
  then show ?thesis by (simp add: getitem_def ndim_def Let_def)
qed

subsection \<open>probe_n_load\<close>

lemma upt_shift: "map f [0..<Suc n] = f 0 # map (\<lambda>i. f (Suc i)) [0..<n]"
  by (simp only: upt_conv_Cons [of 0 "Suc n"] map_Suc_upt [symmetric] list.map map_map comp_def)

lemma probe_retry:
  assumes "\<forall>i<j. ld k (Some (drop i sl)) = Inl IndexError \<or> ld k (Some (drop i sl)) = Inl TypeError"
    and "ld k (Some (drop j sl)) = Inr a" and "j < d"
  shows "probe_n_load ld d (Some k) sl alt = (Inr (Some a), map (\<lambda>i. (k, drop i sl)) [0..<Suc j])"
  using assms
proof (induction j arbitrary: d sl alt)
  case 0
  then obtain d' where "d = Suc d'" by (cases d) auto
  with 0 show ?case by simp
next
  case (Suc j)
  then obtain d' where d: "d = Suc d'" by (cases d) auto
  from Suc.prems(1) have h0: "ld k (Some sl) = Inl IndexError \<or> ld k (Some sl) = Inl TypeError"
    by (metis drop0 zero_less_Suc)
  have h1: "\<forall>i<j. ld k (Some (drop i (tl sl))) = Inl IndexError \<or> ld k (Some (drop i (tl sl))) = Inl TypeError"
    using Suc.prems(1) by (auto simp: drop_Suc [symmetric])
  have h2: "ld k (Some (drop j (tl sl))) = Inr a"
    using Suc.prems(2) by (simp add: drop_Suc)
  have "probe_n_load ld d' (Some k) (tl sl) None = (Inr (Some a), map (\<lambda>i. (k, drop i (tl sl))) [0..<Suc j])"
    using Suc.IH [OF h1 h2] Suc.prems(3) d by simp
  then show ?case using h0 d
    by (subst upt_shift) (auto simp: drop_Suc)
qed

lemma probe_exhausted:
  assumes "\<forall>i. ld k (Some (drop i sl)) = Inl IndexError \<or> ld k (Some (drop i sl)) = Inl TypeError"
  shows "probe_n_load ld d (Some k) sl alt = (Inl RuntimeError, map (\<lambda>i. (k, drop i sl)) [0..<d])"
  using assms
proof (induction d arbitrary: sl alt)
  case 0
  then show ?case by simp
next
  case (Suc d)
  have h0: "ld k (Some sl) = Inl IndexError \<or> ld k (Some sl) = Inl TypeError"
    using Suc.prems by (metis drop0)
  have h1: "\<forall>i. ld k (Some (drop i (tl sl))) = Inl IndexError \<or> ld k (Some (drop i (tl sl))) = Inl TypeError"
    using Suc.prems by (auto simp: drop_Suc [symmetric])
  show ?case using Suc.IH [OF h1] h0
    by (subst upt_shift) (auto simp: drop_Suc)
qed

lemma probe_2d:
  assumes store: "\<forall>ix. ld k (Some ix) = getitem a ix" and nd: "ndim a = 2" and d: "2 \<le> d"
  shows "\<exists>b. getitem a [Slice r1 r2, Slice c1 c2] = Inr b \<and> ndim b = 2 \<and>
           probe_n_load ld d (Some k) [f, Slice r1 r2, Slice c1 c2] alt =
             (Inr (Some b), [(k, [f, Slice r1 r2, Slice c1 c2]), (k, [Slice r1 r2, Slice c1 c2])])"
proof -
  from getitem_slices_2d [OF nd] obtain b
    where b: "getitem a [Slice r1 r2, Slice c1 c2] = Inr b" "ndim b = 2" by blast
  have e: "ld k (Some [f, Slice r1 r2, Slice c1 c2]) = Inl IndexError"
    using store nd by (simp add: getitem_too_many)
  have "probe_n_load ld d (Some k) [f, Slice r1 r2, Slice c1 c2] alt =
          (Inr (Some b), map (\<lambda>i. (k, drop i [f, Slice r1 r2, Slice c1 c2])) [0..<Suc 1])"
  proof (rule probe_retry)
    show "\<forall>i<1. ld k (Some (drop i [f, Slice r1 r2, Slice c1 c2])) = Inl IndexError \<or>
                 ld k (Some (drop i [f, Slice r1 r2, Slice c1 c2])) = Inl TypeError"
      using e by simp
    show "ld k (Some (drop 1 [f, Slice r1 r2, Slice c1 c2])) = Inr b"
      using store b by simp
    show "1 < d" using d by simp
  qed
  then show ?thesis using b by (simp add: upt_rec)
qed

lemma probe_n_load_pos:
  "0 < d \<Longrightarrow> probe_n_load ld d (Some k) sl altkey =
     (case ld k (Some sl) of
        Inr a \<Rightarrow> (Inr (Some a), [(k, sl)])
      | Inl e \<Rightarrow>
          if e = IndexError \<or> e = TypeError then
            (case probe_n_load ld (d - 1) (Some k) (tl sl) None of (r, t) \<Rightarrow> (r, (k, sl) # t))
          else if e = KeyError then
            (case altkey of
               None \<Rightarrow> (Inr None, [(k, sl)])
             | Some ak \<Rightarrow>
                 (case probe_n_load ld (d - 1) (Some ak) sl None of (r, t) \<Rightarrow> (r, (k, sl) # t)))
          else (Inl e, [(k, sl)]))"
  by (cases d) (auto split: sum.splits option.splits)

lemma legacy_loader:
  "loader ev legacy_scan k (Some ix) =
     (if k = ''data'' then getitem (np_zeros [2, 2, 2]) ix
      else if k = ''fmask'' then getitem (np_ones [2, 2]) ix
      else Inl KeyError)"
  by (simp add: legacy_scan_def loader_def)




lemma getitem_empty: "getitem a [] = Inr a"
  by (cases a) (simp add: getitem_def)

lemma probe_array:
  assumes store: "\<forall>ix. ld k (Some ix) = getitem m ix" and d: "length sl < d"
  shows "\<exists>j b. j \<le> length sl \<and> getitem m (drop j sl) = Inr b
           \<and> (\<forall>i<j. getitem m (drop i sl) = Inl IndexError)
           \<and> (j = length sl \<longrightarrow> b = m)
           \<and> probe_n_load ld d (Some k) sl alt
               = (Inr (Some b), map (\<lambda>i. (k, drop i sl)) [0..<Suc j])"
proof -
  define j where "j = (LEAST i. \<exists>b. getitem m (drop i sl) = Inr b)"
  have ex: "\<exists>b. getitem m (drop (length sl) sl) = Inr b"
    by (simp add: getitem_empty)
  then have jle: "j \<le> length sl"
    unfolding j_def by (rule Least_le)
  from ex have "\<exists>b. getitem m (drop j sl) = Inr b"
    unfolding j_def by (rule LeastI)
  then obtain b where b: "getitem m (drop j sl) = Inr b" ..
  have fail: "getitem m (drop i sl) = Inl IndexError" if "i < j" for i
  proof -
    from that have "\<not> (\<exists>b. getitem m (drop i sl) = Inr b)"
      unfolding j_def by (rule not_less_Least)
    then obtain e where "getitem m (drop i sl) = Inl e"
      by (cases "getitem m (drop i sl)") auto
    then show ?thesis by (auto dest: getitem_error)
  qed
  have whole: "j = length sl \<longrightarrow> b = m"
    using b by (auto simp: getitem_empty)
  have "probe_n_load ld d (Some k) sl alt
          = (Inr (Some b), map (\<lambda>i. (k, drop i sl)) [0..<Suc j])"
  proof (rule probe_retry)
    show "\<forall>i<j. ld k (Some (drop i sl)) = Inl IndexError \<or> ld k (Some (drop i sl)) = Inl TypeError"
      using store fail by simp
    show "ld k (Some (drop j sl)) = Inr b" using store b by simp
    show "j < d" using jle d by simp
  qed
  with jle b fail whole show ?thesis by blast
qed

text \<open>
  C2, as the code has it. If the loader raises IndexError or TypeError for the slice
  and for its first \<open>j\<close> shortenings (the outermost entry dropped each time) and
  returns an array for the next one, \<open>probe_n_load\<close> returns that array after exactly
  \<open>j\<close> retries, as long as the interpreter allows \<open>j + 1\<close> nested calls; \<open>j\<close> may be
  the length of the slice: the empty tuple that is left when every entry has been
  dropped is read like the others. On a store that holds an array under the key no
  error comes out at all: some shortening succeeds, at the latest the empty tuple,
  which gives the array whole. A RuntimeError comes out only if the loader raises
  for every shortening, the empty tuple included: the recursion then goes on reading
  the empty tuple until the interpreter's recursion limit ends it. For a store that
  holds a 2-D array under the key and a slice of three entries whose last two are
  slices, the result is the 2-D array cut by those two slices, not by the frame
  entry, after exactly one retry.
\<close>

theorem probe_n_load_dimension_fallback:
  "((\<forall>i<j. ld k (Some (drop i sl)) = Inl IndexError \<or> ld k (Some (drop i sl)) = Inl TypeError)
      \<longrightarrow> ld k (Some (drop j sl)) = Inr a \<longrightarrow> j < d
      \<longrightarrow> probe_n_load ld d (Some k) sl alt
            = (Inr (Some a), map (\<lambda>i. (k, drop i sl)) [0..<Suc j]))
   \<and> ((\<forall>ix. ld k (Some ix) = getitem m ix) \<longrightarrow> length sl < d
      \<longrightarrow> (\<exists>j b. j \<le> length sl \<and> getitem m (drop j sl) = Inr b
              \<and> (\<forall>i<j. getitem m (drop i sl) = Inl IndexError)
              \<and> (j = length sl \<longrightarrow> b = m)
              \<and> probe_n_load ld d (Some k) sl alt
                  = (Inr (Some b), map (\<lambda>i. (k, drop i sl)) [0..<Suc j])))
   \<and> ((\<forall>i. ld k (Some (drop i sl)) = Inl IndexError \<or> ld k (Some (drop i sl)) = Inl TypeError)
      \<longrightarrow> probe_n_load ld d (Some k) sl alt
            = (Inl RuntimeError, map (\<lambda>i. (k, drop i sl)) [0..<d]))
   \<and> ((\<forall>ix. ld k (Some ix) = getitem m ix) \<longrightarrow> ndim m = 2 \<longrightarrow> 2 \<le> d
      \<longrightarrow> (\<exists>b. getitem m [Slice r1 r2, Slice c1 c2] = Inr b \<and> ndim b = 2 \<and>
              probe_n_load ld d (Some k) [f, Slice r1 r2, Slice c1 c2] alt
                = (Inr (Some b),
                   [(k, [f, Slice r1 r2, Slice c1 c2]), (k, [Slice r1 r2, Slice c1 c2])])))"
proof (intro conjI impI)
  assume "\<forall>i<j. ld k (Some (drop i sl)) = Inl IndexError \<or> ld k (Some (drop i sl)) = Inl TypeError"
    and "ld k (Some (drop j sl)) = Inr a" and "j < d"
  then show "probe_n_load ld d (Some k) sl alt
               = (Inr (Some a), map (\<lambda>i. (k, drop i sl)) [0..<Suc j])"
    by (rule probe_retry)
next
  assume "\<forall>ix. ld k (Some ix) = getitem m ix" and "length sl < d"
  then show "\<exists>j b. j \<le> length sl \<and> getitem m (drop j sl) = Inr b
              \<and> (\<forall>i<j. getitem m (drop i sl) = Inl IndexError)
              \<and> (j = length sl \<longrightarrow> b = m)
              \<and> probe_n_load ld d (Some k) sl alt
                  = (Inr (Some b), map (\<lambda>i. (k, drop i sl)) [0..<Suc j])"
    by (rule probe_array)
next
  assume "\<forall>i. ld k (Some (drop i sl)) = Inl IndexError \<or> ld k (Some (drop i sl)) = Inl TypeError"
  then show "probe_n_load ld d (Some k) sl alt
               = (Inl RuntimeError, map (\<lambda>i. (k, drop i sl)) [0..<d])"
    by (rule probe_exhausted)
next
  assume "\<forall>ix. ld k (Some ix) = getitem m ix" and "ndim m = 2" and "2 \<le> d"
  then show "\<exists>b. getitem m [Slice r1 r2, Slice c1 c2] = Inr b \<and> ndim b = 2 \<and>
              probe_n_load ld d (Some k) [f, Slice r1 r2, Slice c1 c2] alt
                = (Inr (Some b),
                   [(k, [f, Slice r1 r2, Slice c1 c2]), (k, [Slice r1 r2, Slice c1 c2])])"
    by (rule probe_2d)
qed

theorem probe_n_load_dimension_fallback_witness:
  "probe_n_load (loader single_process legacy_scan) 900 (Some ''fmask'')
      [Slice (Some 0) (Some 2), Slice None None, Slice None None] None
     = (Inr (Some (np_ones [2, 2])),
        [(''fmask'', [Slice (Some 0) (Some 2), Slice None None, Slice None None]),
         (''fmask'', [Slice None None, Slice None None])])
   \<and> probe_n_load (\<lambda>k sl. Inl IndexError) 5 (Some ''mask'') full_slice None
     = (Inl RuntimeError, [(''mask'', full_slice), (''mask'', tl full_slice),
                           (''mask'', tl (tl full_slice)), (''mask'', []), (''mask'', [])])
   \<and> probe_n_load (loader single_process legacy_scan) 900 (Some ''fmask'')
      [IntTuple [0, 1], Slice None None, Slice None None] None
     = (Inr (Some (np_ones [2, 2])),
        [(''fmask'', [IntTuple [0, 1], Slice None None, Slice None None]),
         (''fmask'', [Slice None None, Slice None None])])
   \<and> probe_n_load (loader single_process scalar_scan) 900 (Some ''mask'')
      [IntTuple [0, 1], Slice (Some 0) (Some 2), Slice None None] None
     = (Inr (Some (NDArray [] [1])),
        [(''mask'', [IntTuple [0, 1], Slice (Some 0) (Some 2), Slice None None]),
         (''mask'', [Slice (Some 0) (Some 2), Slice None None]),
         (''mask'', [Slice None None]), (''mask'', [])])
   \<and> (\<exists>j b. j \<le> length full_slice
        \<and> probe_n_load (loader single_process legacy_scan) 900 (Some ''data'') full_slice None
            = (Inr (Some b), map (\<lambda>i. (''data'', drop i full_slice)) [0..<Suc j]))"
proof -
  let ?ld = "loader single_process legacy_scan"
  let ?sl = "[Slice (Some 0) (Some 2), Slice None None, Slice None None]"
  have store: "\<forall>ix. ?ld ''fmask'' (Some ix) = getitem (np_ones [2, 2]) ix"
    by (simp add: legacy_loader)
  have nd: "ndim (np_ones [2, 2]) = 2" by code_simp
  have g: "getitem (np_ones [2, 2]) [Slice None None, Slice None None] = Inr (np_ones [2, 2])"
    by code_simp
  have a: "probe_n_load ?ld 900 (Some ''fmask'') ?sl None
             = (Inr (Some (np_ones [2, 2])), [(''fmask'', ?sl), (''fmask'', [Slice None None, Slice None None])])"
    using probe_n_load_dimension_fallback
      [of 0 ?ld "''fmask''" "[]" "np_ones []" 900 None "np_ones [2, 2]" None None None None
          "Slice (Some 0) (Some 2)"] store nd g
    by simp
  have b: "probe_n_load (\<lambda>k sl. Inl IndexError) 5 (Some ''mask'') full_slice None
             = (Inl RuntimeError, map (\<lambda>i. (''mask'', drop i full_slice)) [0..<5])"
    using probe_n_load_dimension_fallback
      [of 0 "\<lambda>k sl. Inl IndexError" "''mask''" full_slice "np_ones []" 5 None "np_ones []"]
    by simp
  have u: "[0..<5] = [0, 1, 2, 3, 4]" by (simp add: upt_rec)
  let ?il = "[IntTuple [0, 1], Slice None None, Slice None None]"
  have i0: "\<forall>i<1. ?ld ''fmask'' (Some (drop i ?il)) = Inl IndexError
                     \<or> ?ld ''fmask'' (Some (drop i ?il)) = Inl TypeError"
    using store nd by (simp add: getitem_too_many)
  have i1: "?ld ''fmask'' (Some (drop 1 ?il)) = Inr (np_ones [2, 2])"
    using store g by simp
  have u2: "[0..<Suc 1] = [0, 1]" by (simp add: upt_rec)
  have c: "probe_n_load ?ld 900 (Some ''fmask'') ?il None
             = (Inr (Some (np_ones [2, 2])), [(''fmask'', ?il), (''fmask'', [Slice None None, Slice None None])])"
    using i0 i1 probe_n_load_dimension_fallback
      [of 1 ?ld "''fmask''" ?il "np_ones [2, 2]" 900 None "np_ones []"]
    by (simp add: u2)
  let ?sd = "loader single_process scalar_scan"
  let ?xl = "[IntTuple [0, 1], Slice (Some 0) (Some 2), Slice None None]"
  have sstore: "\<forall>ix. ?sd ''mask'' (Some ix) = getitem (NDArray [] [1]) ix"
    by (simp add: scalar_scan_def legacy_scan_def loader_def)
  have snd0: "ndim (NDArray [] [1]) = 0" by (simp add: ndim_def)
  have x0: "\<forall>i<3. ?sd ''mask'' (Some (drop i ?xl)) = Inl IndexError
                     \<or> ?sd ''mask'' (Some (drop i ?xl)) = Inl TypeError"
    using sstore snd0 by (simp add: getitem_too_many)
  have x1: "?sd ''mask'' (Some (drop 3 ?xl)) = Inr (NDArray [] [1])"
    using sstore by (simp add: getitem_empty)
  have u3: "[0..<4] = [0, 1, 2, 3]" by (simp add: upt_rec)
  have "probe_n_load ?sd 900 (Some ''mask'') ?xl None
          = (Inr (Some (NDArray [] [1])), map (\<lambda>i. (''mask'', drop i ?xl)) [0..<Suc 3])"
    using x0 x1 probe_n_load_dimension_fallback
      [of 3 ?sd "''mask''" ?xl "NDArray [] [1]" 900 None "np_ones []"]
    by simp
  then have x: "probe_n_load ?sd 900 (Some ''mask'') ?xl None
             = (Inr (Some (NDArray [] [1])),
                [(''mask'', ?xl), (''mask'', [Slice (Some 0) (Some 2), Slice None None]),
                 (''mask'', [Slice None None]), (''mask'', [])])"
    by (simp add: u3)
  have dstore: "\<forall>ix. ?ld ''data'' (Some ix) = getitem (np_zeros [2, 2, 2]) ix"
    by (simp add: legacy_loader)
  have len: "length full_slice < 900" by (simp add: full_slice_def)
  have y: "\<exists>j b. j \<le> length full_slice
        \<and> probe_n_load ?ld 900 (Some ''data'') full_slice None
            = (Inr (Some b), map (\<lambda>i. (''data'', drop i full_slice)) [0..<Suc j])"
    using dstore len probe_n_load_dimension_fallback
      [of 0 ?ld "''data''" full_slice "np_ones []" 900 None "np_zeros [2, 2, 2]"]
    by blast
  have b': "probe_n_load (\<lambda>k sl. Inl IndexError) 5 (Some ''mask'') full_slice None
     = (Inl RuntimeError, [(''mask'', full_slice), (''mask'', tl full_slice),
                           (''mask'', tl (tl full_slice)), (''mask'', []), (''mask'', [])])"
    using b by (simp add: u full_slice_def)
  from a b' c x y show ?thesis by (intro conjI)
qed

text \<open>
  C2 as stated fails where the slice is exhausted: a mask stored as a single number
  fits none of the three shortenings that have an entry, the read with the empty
  tuple succeeds, and \<open>probe_n_load\<close> returns the value; no error is signalled.
\<close>

theorem probe_n_load_exhausted_counterexample:
  "loader single_process scalar_scan ''mask'' (Some full_slice) = Inl IndexError
   \<and> loader single_process scalar_scan ''mask'' (Some (tl full_slice)) = Inl IndexError
   \<and> loader single_process scalar_scan ''mask'' (Some (tl (tl full_slice))) = Inl IndexError
   \<and> probe_n_load (loader single_process scalar_scan) 900 (Some ''mask'') full_slice None
       = (Inr (Some (NDArray [] [1])),
          [(''mask'', full_slice), (''mask'', tl full_slice), (''mask'', tl (tl full_slice)),
           (''mask'', [])])"
proof -
  show ?thesis
    by (simp add: scalar_scan_def legacy_scan_def loader_def probe_n_load_pos getitem_def
          full_slice_def)
qed

subsection \<open>load\<close>

lemma ceiling_half_minus: "\<lceil>(of_int c :: rat) - of_int r / 2\<rceil> = c - r div 2"
proof -
  have "(of_int c :: rat) - of_int r / 2 = of_int (2 * c - r) / of_int 2" by (simp add: field_simps)
  then have "\<lceil>(of_int c :: rat) - of_int r / 2\<rceil> = - (- (2 * c - r) div 2)"
    by (simp only: ceiling_divide_eq_div)
  then show ?thesis by presburger
qed

lemma ceiling_half_plus: "\<lceil>(of_int c :: rat) + of_int r / 2\<rceil> = c + (r + 1) div 2"
proof -
  have "(of_int c :: rat) + of_int r / 2 = of_int (2 * c + r) / of_int 2" by (simp add: field_simps)
  then have "\<lceil>(of_int c :: rat) + of_int r / 2\<rceil> = - (- (2 * c + r) div 2)"
    by (simp only: ceiling_divide_eq_div)
  then show ?thesis by presburger
qed

lemma probe_first_read:
  "probe_n_load ld d (Some k) sl alt = (r, t) \<Longrightarrow> t = [] \<or> hd t = (k, sl)"
  by (cases d) (auto split: sum.splits option.splits if_splits prod.splits)

lemma probe_no_read: "probe_n_load ld d (Some k) sl alt = (r, []) \<Longrightarrow> d = 0"
  by (cases d) (auto split: sum.splits option.splits if_splits prod.splits)

lemma load_arrays_first_read:
  assumes "load_arrays ld d sl s = (r, s', t)"
  shows "t = [] \<or> hd t = (''data'', sl)"
proof (cases d)
  case 0
  with assms show ?thesis by (simp add: load_arrays_def)
next
  case (Suc d')
  obtain r1 t1 where p: "probe_n_load ld d (Some ''data'') sl None = (r1, t1)" by fastforce
  with Suc have "t1 \<noteq> []" using probe_no_read by blast
  moreover from p have "t1 = [] \<or> hd t1 = (''data'', sl)" by (rule probe_first_read)
  ultimately have h: "t1 \<noteq> [] \<and> hd t1 = (''data'', sl)" by blast
  from assms p have "\<exists>u. t = t1 @ u"
    by (auto simp: load_arrays_def split: sum.splits prod.splits)
  with h show ?thesis by auto
qed

lemma load_first_read:
  assumes "load ev s first lst roidim roictr split = (res, s', reads)"
    and "shape (scan_info s) = (n, h, w)"
  shows "reads = [] \<or>
         (\<exists>fs. hd reads = (''data'', [fs, fst (load_roislice (h, w) roidim roictr),
                                        snd (load_roislice (h, w) roidim roictr)]))"
  using assms
  by (auto simp: load_def Let_def load_views_def split: if_splits sum.splits prod.splits option.splits
           dest!: load_arrays_first_read)


lemma tiny_scan_init: "DataScan_init ev (Some tiny_pars) NoSource None = Inr tiny_scan"
  by (simp add: DataScan_init_def set_source_def tiny_scan_def tiny_pars_def DEFAULT_scan_info_def)

text \<open>
  C3. With a region of interest of size \<open>(r0, r1)\<close>, the centre is the one given or,
  without one, \<open>(h div 2, w div 2)\<close> for frames of \<open>h\<close> by \<open>w\<close> pixels; the row and the
  column slice run from \<open>ceil(centre - size/2)\<close> to \<open>ceil(centre + size/2)\<close>, that is
  from \<open>centre - size div 2\<close> to \<open>centre + (size + 1) div 2\<close>; and the first read
  \<open>load\<close> makes, if it makes any, asks for \<open>data\<close> with these two slices after the
  frame entry.
\<close>

theorem load_roi_window:
  assumes "load ev s first lst (Some (r0, r1)) roictr split = (res, s', reads)"
    and "shape (scan_info s) = (n, h, w)"
    and "(c0, c1) = (case roictr of None \<Rightarrow> (int (h div 2), int (w div 2)) | Some c \<Rightarrow> c)"
  shows "load_roislice (h, w) (Some (r0, r1)) roictr =
           (Slice (Some \<lceil>(of_int c0 :: rat) - of_int r0 / 2\<rceil>)
                  (Some \<lceil>(of_int c0 :: rat) + of_int r0 / 2\<rceil>),
            Slice (Some \<lceil>(of_int c1 :: rat) - of_int r1 / 2\<rceil>)
                  (Some \<lceil>(of_int c1 :: rat) + of_int r1 / 2\<rceil>))
       \<and> load_roislice (h, w) (Some (r0, r1)) roictr =
           (Slice (Some (c0 - r0 div 2)) (Some (c0 + (r0 + 1) div 2)),
            Slice (Some (c1 - r1 div 2)) (Some (c1 + (r1 + 1) div 2)))
       \<and> (reads = [] \<or>
            (\<exists>fs. hd reads =
               (''data'', [fs, Slice (Some (c0 - r0 div 2)) (Some (c0 + (r0 + 1) div 2)),
                           Slice (Some (c1 - r1 div 2)) (Some (c1 + (r1 + 1) div 2))])))"
proof -
  have a: "load_roislice (h, w) (Some (r0, r1)) roictr =
           (Slice (Some \<lceil>(of_int c0 :: rat) - of_int r0 / 2\<rceil>)
                  (Some \<lceil>(of_int c0 :: rat) + of_int r0 / 2\<rceil>),
            Slice (Some \<lceil>(of_int c1 :: rat) - of_int r1 / 2\<rceil>)
                  (Some \<lceil>(of_int c1 :: rat) + of_int r1 / 2\<rceil>))"
    using assms(3) by (cases roictr) (auto simp: load_roislice_def)
  then have b: "load_roislice (h, w) (Some (r0, r1)) roictr =
           (Slice (Some (c0 - r0 div 2)) (Some (c0 + (r0 + 1) div 2)),
            Slice (Some (c1 - r1 div 2)) (Some (c1 + (r1 + 1) div 2)))"
    by (simp only: ceiling_half_minus ceiling_half_plus)
  from load_first_read [OF assms(1) assms(2)] b
  have "reads = [] \<or>
            (\<exists>fs. hd reads =
               (''data'', [fs, Slice (Some (c0 - r0 div 2)) (Some (c0 + (r0 + 1) div 2)),
                           Slice (Some (c1 - r1 div 2)) (Some (c1 + (r1 + 1) div 2))]))"
    by simp
  with a b show ?thesis by blast
qed

theorem load_roi_window_witness:
  "load_roislice (10, 10) (Some (4, 4)) (Some (5, 5)) = (Slice (Some 3) (Some 7), Slice (Some 3) (Some 7))
   \<and> load_roislice (10, 10) (Some (3, 3)) (Some (5, 5)) = (Slice (Some 4) (Some 7), Slice (Some 4) (Some 7))
   \<and> load_roislice (10, 10) (Some (3, 3)) None = (Slice (Some 4) (Some 7), Slice (Some 4) (Some 7))
   \<and> (\<exists>fs. hd (snd (snd (load single_process roi_scan 0 None (Some (3, 3)) (Some (5, 5)) SplitTrue)))
          = (''data'', [fs, Slice (Some 4) (Some 7), Slice (Some 4) (Some 7)]))"
proof -
  let ?ld = "\<lambda>d c. load single_process roi_scan 0 None d c SplitTrue"
  have sh: "shape (scan_info roi_scan) = (1, 10, 10)" by (simp add: roi_scan_def)
  have p: "\<And>d c. ?ld d c = (fst (?ld d c), fst (snd (?ld d c)), snd (snd (?ld d c)))" by simp
  have a: "load_roislice (10, 10) (Some (4, 4)) (Some (5, 5)) = (Slice (Some 3) (Some 7), Slice (Some 3) (Some 7))"
    using load_roi_window [OF p sh, of 5 5 "Some (5, 5)" 4 4, THEN conjunct2, THEN conjunct1]
    by simp
  have ne: "snd (snd (?ld (Some (3, 3)) (Some (5, 5)))) \<noteq> []" by code_simp
  have b: "load_roislice (10, 10) (Some (3, 3)) (Some (5, 5)) = (Slice (Some 4) (Some 7), Slice (Some 4) (Some 7))
    \<and> (\<exists>fs. hd (snd (snd (?ld (Some (3, 3)) (Some (5, 5)))))
          = (''data'', [fs, Slice (Some 4) (Some 7), Slice (Some 4) (Some 7)]))"
    using ne load_roi_window [OF p sh, of 5 5 "Some (5, 5)" 3 3, THEN conjunct2]
    by simp
  have c: "load_roislice (10, 10) (Some (3, 3)) None = (Slice (Some 4) (Some 7), Slice (Some 4) (Some 7))"
    using load_roi_window [OF p sh, of 5 5 None 3 3, THEN conjunct2, THEN conjunct1]
    by simp
  show ?thesis using a b c by blast
qed

lemma load_arrays_fields:
  "load_arrays ld d sl s = (r, s', t) \<Longrightarrow>
     indices s' = indices s \<and> frame_slice s' = frame_slice s \<and> Nframes s' = Nframes s
     \<and> asize s' = asize s \<and> scan_info s' = scan_info s
     \<and> datalist s' = datalist s \<and> masklist s' = masklist s
     \<and> flatlist s' = flatlist s \<and> darklist s' = darklist s"
  by (auto simp: load_arrays_def split: sum.splits prod.splits)

lemma load_views_fields:
  "load_views nf ids s = (r, s') \<Longrightarrow>
     indices s' = indices s \<and> frame_slice s' = frame_slice s \<and> Nframes s' = Nframes s
     \<and> asize s' = asize s \<and> scan_info s' = scan_info s
     \<and> data s' = data s \<and> mask s' = mask s \<and> flat s' = flat s \<and> dark s' = dark s"
  by (auto simp: load_views_def set_views_def Let_def split: option.splits prod.splits)

text \<open>
  C4. In the automatic mode (\<open>MPIsplit=True\<close>) let \<open>ids\<close> be the indices the
  partition assigns to this process for the identities of the frames
  \<open>first .. last - 1\<close>. If \<open>ids\<close> is empty or is not the list of the integers from its
  first to its last entry, \<open>load\<close> raises (IndexError on \<open>indices[0]\<close>, AssertionError
  at line 246) without having read anything and leaves the object as it was. If
  \<open>load\<close> returns, \<open>ids\<close> is that contiguous list and the frame slice is
  \<open>slice(ids[0], ids[-1] + 1)\<close>.
\<close>

theorem load_autosplit_contiguous:
  assumes "load ev s first lst roidim roictr SplitTrue = (res, s', reads)"
    and "ids = assign ev (map (\<lambda>i. (scan_label (scan_info s), i))
                 [first..(case lst of None \<Rightarrow> int (fst (shape (scan_info s))) | Some l \<Rightarrow> l) - 1])"
  shows "(ids = [] \<or> ids \<noteq> [hd ids..last ids]
            \<longrightarrow> (res = Some IndexError \<or> res = Some AssertionError) \<and> reads = [] \<and> s' = s)
       \<and> (res = None
            \<longrightarrow> ids \<noteq> [] \<and> ids = [hd ids..last ids] \<and> indices s' = Some ids
                \<and> frame_slice s' = Some (Some (Slice (Some (hd ids)) (Some (last ids + 1)))))"
proof -
  obtain n h w where sh: "shape (scan_info s) = (n, h, w)" by (cases "shape (scan_info s)") auto
  have a: "ids = [] \<or> ids \<noteq> [hd ids..last ids]
            \<longrightarrow> (res = Some IndexError \<or> res = Some AssertionError) \<and> reads = [] \<and> s' = s"
    using assms sh
    by (auto simp: load_def load_indices_def Let_def split: if_splits option.splits)
  have b: "res = None
            \<longrightarrow> ids \<noteq> [] \<and> ids = [hd ids..last ids] \<and> indices s' = Some ids
                \<and> frame_slice s' = Some (Some (Slice (Some (hd ids)) (Some (last ids + 1))))"
    using assms sh
    by (auto simp: load_def load_indices_def Let_def split: if_splits option.splits prod.splits
             dest!: load_arrays_fields load_views_fields)
  from a b show ?thesis by blast
qed

text \<open>An environment whose partition gives this process the positions 0 and 2.\<close>

theorem load_autosplit_contiguous_witness:
  "(fst (load (single_process\<lparr>assign := (\<lambda>idlist. [0, 2])\<rparr>) tiny_scan 0 (Some 3) None None SplitTrue)
      = Some AssertionError
    \<and> snd (snd (load (single_process\<lparr>assign := (\<lambda>idlist. [0, 2])\<rparr>) tiny_scan 0 (Some 3) None None
                   SplitTrue)) = [])
   \<and> indices (fst (snd (load single_process tiny_scan 0 None None None SplitTrue))) = Some [0, 1]"
proof -
  let ?bad = "load (single_process\<lparr>assign := (\<lambda>idlist. [0, 2])\<rparr>) tiny_scan 0 (Some 3) None None SplitTrue"
  let ?good = "load single_process tiny_scan 0 None None None SplitTrue"
  have nc: "[0, 2] \<noteq> [hd [0, 2 :: int]..last [0, 2]]" by (simp add: upto.simps)
  have e: "fst ?bad \<noteq> Some IndexError" by code_simp
  have pb: "?bad = (fst ?bad, fst (snd ?bad), snd (snd ?bad))" by simp
  have idb: "[0, 2] = assign (single_process\<lparr>assign := (\<lambda>idlist. [0, 2])\<rparr>)
                 (map (\<lambda>i. (scan_label (scan_info tiny_scan), i))
                 [0..(case Some 3 of None \<Rightarrow> int (fst (shape (scan_info tiny_scan))) | Some l \<Rightarrow> l) - 1])"
    by simp
  have a: "fst ?bad = Some AssertionError \<and> snd (snd ?bad) = []"
    using nc e load_autosplit_contiguous [OF pb idb] by simp
  have ok: "fst ?good = None" by code_simp
  have pg: "?good = (fst ?good, fst (snd ?good), snd (snd ?good))" by simp
  have ids: "[0, 1] = assign single_process (map (\<lambda>i. (scan_label (scan_info tiny_scan), i))
                 [0..(case None of None \<Rightarrow> int (fst (shape (scan_info tiny_scan))) | Some l \<Rightarrow> l) - 1])"
    by code_simp
  have b: "indices (fst (snd ?good)) = Some [0, 1]"
    using ok load_autosplit_contiguous [OF pg ids] by simp
  show ?thesis using a b by blast
qed

subsection \<open>Constant arrays\<close>

lemma slice_bound_le: "slice_bound n i \<le> n"
  by (auto simp: slice_bound_def)

lemma int_positions_bound: "int_positions n js = Inr ps \<Longrightarrow> \<forall>p\<in>set ps. p < n"
  by (induction js arbitrary: ps) (auto split: if_splits sum.splits)

lemma axis_positions_bound: "axis_positions n ix = Inr ps \<Longrightarrow> \<forall>p\<in>set ps. p < n"
proof (cases ix)
  case (Slice lo hi)
  assume "axis_positions n ix = Inr ps"
  with Slice show ?thesis
    using slice_bound_le [of n] by (auto simp: Let_def split: option.splits intro: less_le_trans)
next
  case (IntTuple js)
  assume "axis_positions n ix = Inr ps"
  with IntTuple show ?thesis by (simp add: int_positions_bound)
qed

lemma concat_replicate_const:
  "concat (map (\<lambda>p. replicate k c) ps) = replicate (length ps * k) c"
  by (induction ps) (simp_all add: replicate_add)

lemma block_of_const:
  assumes "p < n"
  shows "take m (drop (p * m) (replicate (n * m) c)) = replicate m c"
proof -
  from assms have "Suc p \<le> n" by simp
  then have "Suc p * m \<le> n * m" by (rule mult_le_mono1)
  then have "m \<le> n * m - p * m" by simp
  then show ?thesis by (simp add: min_def)
qed

lemma pick_const:
  "index_positions sh sl = Inr pss \<Longrightarrow>
     pick sh pss (replicate (prod_list sh) c)
       = replicate (prod_list (map length pss @ drop (length pss) sh)) c"
proof (induction sh sl arbitrary: pss rule: index_positions.induct)
  case (1 sh)
  then show ?case by (cases sh) simp_all
next
  case (2 ix ixs)
  then show ?case by simp
next
  case (3 n sh ix ixs)
  from "3.prems" obtain ps pss' where ps: "axis_positions n ix = Inr ps"
    and pss': "index_positions sh ixs = Inr pss'" and e: "pss = ps # pss'"
    by (auto split: sum.splits)
  let ?k = "prod_list (map length pss' @ drop (length pss') sh)"
  have ih: "pick sh pss' (replicate (prod_list sh) c) = replicate ?k c"
    using "3.IH" [OF ps pss'] .
  have bound: "\<forall>p\<in>set ps. p < n" using ps by (rule axis_positions_bound)
  have "map (\<lambda>p. pick sh pss' (take (prod_list sh) (drop (p * prod_list sh)
                    (replicate (n * prod_list sh) c)))) ps
             = map (\<lambda>p. replicate ?k c) ps"
  proof (rule map_cong [OF refl])
    fix p assume "p \<in> set ps"
    with bound have "p < n" by blast
    then have "take (prod_list sh) (drop (p * prod_list sh) (replicate (n * prod_list sh) c))
                 = replicate (prod_list sh) c"
      by (rule block_of_const)
    then show "pick sh pss' (take (prod_list sh) (drop (p * prod_list sh)
                    (replicate (n * prod_list sh) c))) = replicate ?k c"
      using ih by simp
  qed
  then have "concat (map (\<lambda>p. pick sh pss' (take (prod_list sh) (drop (p * prod_list sh)
                    (replicate (n * prod_list sh) c)))) ps)
             = concat (map (\<lambda>p. replicate ?k c) ps)"
    by (simp only:)
  also have "\<dots> = replicate (length ps * ?k) c" by (rule concat_replicate_const)
  finally have "pick (n # sh) (ps # pss') (replicate (prod_list (n # sh)) c)
                  = replicate (length ps * ?k) c"
    by (simp only: pick.simps prod_list.Cons)
  then show ?case by (simp add: e)
qed

lemma getitem_ones: "getitem (np_ones sh) sl = Inr a \<Longrightarrow> a = np_ones (arr_shape a)"
  by (auto simp: getitem_def np_ones_def pick_const split: sum.splits)

lemma getitem_zeros: "getitem (np_zeros sh) sl = Inr a \<Longrightarrow> a = np_zeros (arr_shape a)"
  by (auto simp: getitem_def np_zeros_def pick_const split: sum.splits)

lemma init_NoSource:
  "DataScan_init ev pars NoSource snk = Inr s \<Longrightarrow> loader_attr s = Some EmptyLoader"
  by (auto simp: DataScan_init_def set_source_def Let_def)

text \<open>
  C10. On a DataScan constructed with source \<open>None\<close> the loader answers every key:
  without a slice it returns the array of ones of shape \<open>scan_info.shape\<close> for
  \<open>flat\<close> and \<open>mask\<close> and the array of zeros of that shape for any other key; with a
  slice it returns that array indexed by the slice, which is again all ones or all
  zeros. It never raises KeyError (an index outside the array raises IndexError,
  as numpy does).
\<close>

theorem empty_source_loader:
  assumes "DataScan_init ev pars NoSource snk = Inr s"
  shows "loader ev s key None =
           Inr (if key = ''flat'' \<or> key = ''mask'' then np_ones (shape_list (scan_info s))
                else np_zeros (shape_list (scan_info s)))
       \<and> loader ev s key (Some sl) =
           getitem (if key = ''flat'' \<or> key = ''mask'' then np_ones (shape_list (scan_info s))
                    else np_zeros (shape_list (scan_info s))) sl
       \<and> loader ev s key slo \<noteq> Inl KeyError
       \<and> (loader ev s key (Some sl) = Inr a \<longrightarrow>
            a = (if key = ''flat'' \<or> key = ''mask'' then np_ones (arr_shape a)
                 else np_zeros (arr_shape a)))"
proof -
  have l: "loader_attr s = Some EmptyLoader" using assms by (rule init_NoSource)
  have a: "loader ev s key None =
           Inr (if key = ''flat'' \<or> key = ''mask'' then np_ones (shape_list (scan_info s))
                else np_zeros (shape_list (scan_info s)))"
    using l by (simp add: loader_def)
  have b: "loader ev s key (Some sl) =
           getitem (if key = ''flat'' \<or> key = ''mask'' then np_ones (shape_list (scan_info s))
                    else np_zeros (shape_list (scan_info s))) sl" for sl
    using l by (simp add: loader_def)
  have c: "loader ev s key slo \<noteq> Inl KeyError"
  proof (cases slo)
    case None
    then show ?thesis using a by simp
  next
    case (Some ix)
    then show ?thesis using b [of ix] by (auto dest: getitem_error)
  qed
  have d: "loader ev s key (Some sl) = Inr a \<longrightarrow>
            a = (if key = ''flat'' \<or> key = ''mask'' then np_ones (arr_shape a)
                 else np_zeros (arr_shape a))"
    using b [of sl] by (auto dest: getitem_ones getitem_zeros)
  from a b [of sl] c d show ?thesis by blast
qed

theorem empty_source_loader_witness:
  "loader single_process tiny_scan ''mask'' None = Inr (np_ones [2, 1, 1])
   \<and> loader single_process tiny_scan ''flat'' None = Inr (np_ones [2, 1, 1])
   \<and> loader single_process tiny_scan ''data'' None = Inr (np_zeros [2, 1, 1])
   \<and> loader single_process tiny_scan ''dark'' None = Inr (np_zeros [2, 1, 1])
   \<and> loader single_process tiny_scan ''mask'' (Some [IntTuple [1], Slice None None, Slice None None])
       = Inr (np_ones [1, 1, 1])"
proof -
  have sh: "shape_list (scan_info tiny_scan) = [2, 1, 1]"
    by (simp add: shape_list_def tiny_scan_def tiny_pars_def)
  have g: "getitem (np_ones [2, 1, 1]) [IntTuple [1], Slice None None, Slice None None]
             = Inr (np_ones [1, 1, 1])"
    by code_simp
  note w = empty_source_loader [OF tiny_scan_init, of single_process _ _ None "np_ones []"]
  show ?thesis
    using w [of "''mask''" "[IntTuple [1], Slice None None, Slice None None]"]
      w [of "''flat''" "[]"] w [of "''data''" "[]"] w [of "''dark''" "[]"] g
    by (simp add: sh)
qed

subsection \<open>save\<close>

lemma set_source_data: "set_source ev s src = (r, s') \<Longrightarrow> data s' = data s"
  by (auto simp: set_source_def Let_def split: source.splits if_splits sum.splits option.splits)

lemma unload_data_data: "unload_data s = (r, s') \<Longrightarrow> data s' = data s \<or> data s' = None"
  by (auto simp: unload_data_def del_attr_def split: option.splits if_splits prod.splits)

lemma never_loaded_data: "never_loaded ev s \<Longrightarrow> data s = None \<or> data s = Some None"
proof (induction rule: never_loaded.induct)
  case (fresh pars src snk s)
  then show ?case
    by (auto simp: DataScan_init_def Let_def split: prod.splits option.splits
             dest!: set_source_data)
next
  case (after_set_source s src r s')
  then show ?case by (auto dest!: set_source_data)
next
  case (after_unload s r s')
  then show ?case by (auto dest!: unload_data_data)
qed simp_all

text \<open>
  C6, as the code has it. On a DataScan on which \<open>load\<close> was never run and to
  whose attribute \<open>data\<close> nothing was assigned, \<open>save\<close> raises and writes nothing:
  \<open>data\<close> is still the \<open>None\<close> of \<open>__init__\<close>, on which \<open>len(self.data)\<close> raises
  TypeError, or \<open>unload_data\<close> has deleted it, and the check of line 389 raises
  RuntimeError.
\<close>

theorem save_never_loaded:
  assumes "never_loaded ev s"
  shows "save ev w s filename force_overwrite
           = (Some (if data s = None then RuntimeError else TypeError), w)"
  using never_loaded_data [OF assms] by (auto simp: save_def)

theorem save_never_loaded_witness:
  "save single_process \<lparr>written = [], warnings = [], prompts = []\<rparr> tiny_scan (Some ''scan.h5'')
       (Some True)
     = (Some TypeError, \<lparr>written = [], warnings = [], prompts = []\<rparr>)
   \<and> save single_process \<lparr>written = [], warnings = [], prompts = []\<rparr>
        (snd (unload_data tiny_scan)) (Some ''scan.h5'') (Some True)
     = (Some RuntimeError, \<lparr>written = [], warnings = [], prompts = []\<rparr>)
   \<and> save single_process \<lparr>written = [], warnings = [], prompts = []\<rparr>
        (tiny_scan\<lparr>mask := Some (Some (np_ones [2, 1, 1]))\<rparr>) (Some ''scan.h5'') (Some True)
     = (Some TypeError, \<lparr>written = [], warnings = [], prompts = []\<rparr>)"
proof -
  have a: "never_loaded single_process tiny_scan"
    by (rule never_loaded.fresh [OF tiny_scan_init])
  have b: "never_loaded single_process (snd (unload_data tiny_scan))"
    by (rule never_loaded.after_unload [OF a, of "fst (unload_data tiny_scan)"]) simp
  have c: "never_loaded single_process (tiny_scan\<lparr>mask := Some (Some (np_ones [2, 1, 1]))\<rparr>)"
    by (rule never_loaded.mask_assigned [OF a])
  have d0: "data tiny_scan = Some None" by (simp add: tiny_scan_def)
  have d1: "data (snd (unload_data tiny_scan)) = None"
    by (simp add: unload_data_def del_attr_def tiny_scan_def)
  show ?thesis
    using save_never_loaded [OF a, of "\<lparr>written = [], warnings = [], prompts = []\<rparr>"
        "Some ''scan.h5''" "Some True"]
      save_never_loaded [OF b, of "\<lparr>written = [], warnings = [], prompts = []\<rparr>"
        "Some ''scan.h5''" "Some True"]
      save_never_loaded [OF c, of "\<lparr>written = [], warnings = [], prompts = []\<rparr>"
        "Some ''scan.h5''" "Some True"] d0 d1
    by simp
qed

text \<open>
  C6 as stated fails for a DataScan whose data was attached by assignment: \<open>load\<close>
  was never run on the object \<open>__init__\<close> returned, data and mask were assigned to
  it, and \<open>save\<close> raises nothing and writes the file.
\<close>

theorem save_attached_data_counterexample:
  "DataScan_init single_process (Some tiny_pars) NoSource None = Inr tiny_scan
   \<and> attached_scan
       = tiny_scan\<lparr>data := Some (Some (np_zeros [2, 1, 1])),
                   mask := Some (Some (np_ones [2, 1, 1]))\<rparr>
   \<and> save single_process no_world attached_scan (Some ''scan.h5'') (Some True)
       = (None,
          no_world\<lparr>written :=
            [(''scan.h5'',
              \<lparr>sv_data = np_zeros [2, 1, 1], sv_mask = Some (np_ones [2, 1, 1]),
               sv_flat = None, sv_dark = None, sv_info = tiny_pars DEFAULT_scan_info\<rparr>)]\<rparr>)"
proof -
  have len: "array_len (np_zeros [2, 1, 1]) = Inr 2"
    by (simp add: array_len_def np_zeros_def)
  have sh: "arr_shape (np_zeros [2, 1, 1]) = shape_list (scan_info attached_scan)"
    by (simp add: attached_scan_def tiny_scan_def tiny_pars_def shape_list_def np_zeros_def)
  have sv: "save single_process no_world attached_scan (Some ''scan.h5'') (Some True)
       = (None,
          no_world\<lparr>written :=
            [(''scan.h5'',
              \<lparr>sv_data = np_zeros [2, 1, 1], sv_mask = Some (np_ones [2, 1, 1]),
               sv_flat = None, sv_dark = None, sv_info = tiny_pars DEFAULT_scan_info\<rparr>)]\<rparr>)"
    using len sh
    by (simp add: save_def save_overwrite_def attached_scan_def tiny_scan_def single_process_def
          no_world_def)
  from tiny_scan_init sv show ?thesis by (simp add: attached_scan_def)
qed

subsection \<open>The per-frame lists\<close>

lemma int_position_less: "int_position n i = Inr p \<Longrightarrow> p < n"
  by (auto split: if_splits)

declare int_position.simps [simp del]

lemma list_setitem_Inr:
  "list_setitem xs i x = Inr ys \<Longrightarrow> \<exists>p. int_position (length xs) i = Inr p \<and> ys = xs[p := x]"
  by (auto simp: list_setitem_def split: sum.splits)

lemma populate_step:
  assumes "populate d m f dk k (i # js) v = (None, v')"
    and "length (v_data v) = N" "length (v_mask v) = N"
    and "length (v_flat v) = N" "length (v_dark v) = N"
  shows "\<exists>p a fr b mfr.
           int_position N i = Inr p \<and> d = Some a \<and> getframe a k = Inr fr \<and> m = Some b
         \<and> (if ndim b = 2 then mfr = b else getframe b k = Inr mfr)
         \<and> populate d m f dk (Suc k) js
              \<lparr>v_data = (v_data v)[p := Some fr], v_mask = (v_mask v)[p := Some mfr],
               v_flat = (v_flat v)[p := f], v_dark = (v_dark v)[p := dk]\<rparr> = (None, v')"
  using assms
  by (auto split: sum.splits option.splits if_splits dest!: list_setitem_Inr)

lemma populate_ok:
  assumes "populate d m f dk k js v = (None, v')"
    and "length (v_data v) = N" "length (v_mask v) = N"
    and "length (v_flat v) = N" "length (v_dark v) = N"
  shows "length (v_data v') = N \<and> length (v_mask v') = N
       \<and> length (v_flat v') = N \<and> length (v_dark v') = N
       \<and> (\<forall>j<N. (\<forall>i\<in>set js. int_position N i \<noteq> Inr j) \<longrightarrow>
             v_data v' ! j = v_data v ! j \<and> v_mask v' ! j = v_mask v ! j
           \<and> v_flat v' ! j = v_flat v ! j \<and> v_dark v' ! j = v_dark v ! j)
       \<and> (\<forall>n<length js. \<exists>p<N. int_position N (js ! n) = Inr p \<and>
             ((\<forall>n'. n < n' \<and> n' < length js \<longrightarrow> int_position N (js ! n') \<noteq> Inr p) \<longrightarrow>
                (\<exists>a fr. d = Some a \<and> getframe a (k + n) = Inr fr \<and> v_data v' ! p = Some fr)
              \<and> (\<exists>b. m = Some b \<and>
                    (if ndim b = 2 then v_mask v' ! p = Some b
                     else (\<exists>fr. getframe b (k + n) = Inr fr \<and> v_mask v' ! p = Some fr)))
              \<and> v_flat v' ! p = f \<and> v_dark v' ! p = dk))"
  using assms
proof (induction js arbitrary: k v)
  case Nil
  then show ?case by simp
next
  case (Cons i js)
  from populate_step [OF Cons.prems] obtain p a fr b mfr where
    p: "int_position N i = Inr p" and a: "d = Some a" and fr: "getframe a k = Inr fr"
    and b: "m = Some b" and mfr: "if ndim b = 2 then mfr = b else getframe b k = Inr mfr"
    and rest: "populate d m f dk (Suc k) js
              \<lparr>v_data = (v_data v)[p := Some fr], v_mask = (v_mask v)[p := Some mfr],
               v_flat = (v_flat v)[p := f], v_dark = (v_dark v)[p := dk]\<rparr> = (None, v')"
    by blast
  let ?v1 = "\<lparr>v_data = (v_data v)[p := Some fr], v_mask = (v_mask v)[p := Some mfr],
               v_flat = (v_flat v)[p := f], v_dark = (v_dark v)[p := dk]\<rparr>"
  have pN: "p < N" using p by (rule int_position_less)
  have len1: "length (v_data ?v1) = N" "length (v_mask ?v1) = N"
    "length (v_flat ?v1) = N" "length (v_dark ?v1) = N"
    using Cons.prems by simp_all
  note ih = Cons.IH [OF rest len1]
  have lens: "length (v_data v') = N \<and> length (v_mask v') = N
       \<and> length (v_flat v') = N \<and> length (v_dark v') = N"
    using ih by blast
  have keep1: "\<And>j. j < N \<Longrightarrow> \<forall>i\<in>set js. int_position N i \<noteq> Inr j \<Longrightarrow>
             v_data v' ! j = v_data ?v1 ! j \<and> v_mask v' ! j = v_mask ?v1 ! j
           \<and> v_flat v' ! j = v_flat ?v1 ! j \<and> v_dark v' ! j = v_dark ?v1 ! j"
    using ih by blast
  have keep: "\<forall>j<N. (\<forall>i'\<in>set (i # js). int_position N i' \<noteq> Inr j) \<longrightarrow>
             v_data v' ! j = v_data v ! j \<and> v_mask v' ! j = v_mask v ! j
           \<and> v_flat v' ! j = v_flat v ! j \<and> v_dark v' ! j = v_dark v ! j"
  proof (intro allI impI)
    fix j assume j: "j < N" and nh: "\<forall>i'\<in>set (i # js). int_position N i' \<noteq> Inr j"
    from nh p have "j \<noteq> p" by auto
    moreover from nh have "\<forall>i'\<in>set js. int_position N i' \<noteq> Inr j" by simp
    ultimately show "v_data v' ! j = v_data v ! j \<and> v_mask v' ! j = v_mask v ! j
           \<and> v_flat v' ! j = v_flat v ! j \<and> v_dark v' ! j = v_dark v ! j"
      using keep1 [OF j] by simp
  qed
  have hits: "\<forall>n<length (i # js). \<exists>q<N. int_position N ((i # js) ! n) = Inr q \<and>
             ((\<forall>n'. n < n' \<and> n' < length (i # js) \<longrightarrow> int_position N ((i # js) ! n') \<noteq> Inr q) \<longrightarrow>
                (\<exists>a fr. d = Some a \<and> getframe a (k + n) = Inr fr \<and> v_data v' ! q = Some fr)
              \<and> (\<exists>b. m = Some b \<and>
                    (if ndim b = 2 then v_mask v' ! q = Some b
                     else (\<exists>fr. getframe b (k + n) = Inr fr \<and> v_mask v' ! q = Some fr)))
              \<and> v_flat v' ! q = f \<and> v_dark v' ! q = dk)"
  proof (intro allI impI)
    fix n assume n: "n < length (i # js)"
    show "\<exists>q<N. int_position N ((i # js) ! n) = Inr q \<and>
             ((\<forall>n'. n < n' \<and> n' < length (i # js) \<longrightarrow> int_position N ((i # js) ! n') \<noteq> Inr q) \<longrightarrow>
                (\<exists>a fr. d = Some a \<and> getframe a (k + n) = Inr fr \<and> v_data v' ! q = Some fr)
              \<and> (\<exists>b. m = Some b \<and>
                    (if ndim b = 2 then v_mask v' ! q = Some b
                     else (\<exists>fr. getframe b (k + n) = Inr fr \<and> v_mask v' ! q = Some fr)))
              \<and> v_flat v' ! q = f \<and> v_dark v' ! q = dk)"
    proof (cases n)
      case 0
      have "(\<forall>n'. 0 < n' \<and> n' < length (i # js) \<longrightarrow> int_position N ((i # js) ! n') \<noteq> Inr p) \<longrightarrow>
                (\<exists>a fr. d = Some a \<and> getframe a (k + 0) = Inr fr \<and> v_data v' ! p = Some fr)
              \<and> (\<exists>b. m = Some b \<and>
                    (if ndim b = 2 then v_mask v' ! p = Some b
                     else (\<exists>fr. getframe b (k + 0) = Inr fr \<and> v_mask v' ! p = Some fr)))
              \<and> v_flat v' ! p = f \<and> v_dark v' ! p = dk"
      proof
        assume later: "\<forall>n'. 0 < n' \<and> n' < length (i # js) \<longrightarrow> int_position N ((i # js) ! n') \<noteq> Inr p"
        have "\<forall>i'\<in>set js. int_position N i' \<noteq> Inr p"
        proof
          fix i' assume "i' \<in> set js"
          then obtain n0 where "n0 < length js" "js ! n0 = i'" by (auto simp: in_set_conv_nth)
          with later [rule_format, of "Suc n0"] show "int_position N i' \<noteq> Inr p" by simp
        qed
        from keep1 [OF pN this] Cons.prems(2-5) pN
        have "v_data v' ! p = Some fr" "v_mask v' ! p = Some mfr" "v_flat v' ! p = f"
          "v_dark v' ! p = dk"
          by simp_all
        then show "(\<exists>a fr. d = Some a \<and> getframe a (k + 0) = Inr fr \<and> v_data v' ! p = Some fr)
              \<and> (\<exists>b. m = Some b \<and>
                    (if ndim b = 2 then v_mask v' ! p = Some b
                     else (\<exists>fr. getframe b (k + 0) = Inr fr \<and> v_mask v' ! p = Some fr)))
              \<and> v_flat v' ! p = f \<and> v_dark v' ! p = dk"
          using a fr b mfr by (auto split: if_splits)
      qed
      with 0 p pN show ?thesis by auto
    next
      case (Suc n0)
      with n have n0: "n0 < length js" by simp
      from ih have "\<forall>n<length js. \<exists>q<N. int_position N (js ! n) = Inr q \<and>
             ((\<forall>n'. n < n' \<and> n' < length js \<longrightarrow> int_position N (js ! n') \<noteq> Inr q) \<longrightarrow>
                (\<exists>a fr. d = Some a \<and> getframe a (Suc k + n) = Inr fr \<and> v_data v' ! q = Some fr)
              \<and> (\<exists>b. m = Some b \<and>
                    (if ndim b = 2 then v_mask v' ! q = Some b
                     else (\<exists>fr. getframe b (Suc k + n) = Inr fr \<and> v_mask v' ! q = Some fr)))
              \<and> v_flat v' ! q = f \<and> v_dark v' ! q = dk)"
        by blast
      from this [rule_format, OF n0] obtain q where q: "q < N" "int_position N (js ! n0) = Inr q"
        and qh: "(\<forall>n'. n0 < n' \<and> n' < length js \<longrightarrow> int_position N (js ! n') \<noteq> Inr q) \<longrightarrow>
                (\<exists>a fr. d = Some a \<and> getframe a (Suc k + n0) = Inr fr \<and> v_data v' ! q = Some fr)
              \<and> (\<exists>b. m = Some b \<and>
                    (if ndim b = 2 then v_mask v' ! q = Some b
                     else (\<exists>fr. getframe b (Suc k + n0) = Inr fr \<and> v_mask v' ! q = Some fr)))
              \<and> v_flat v' ! q = f \<and> v_dark v' ! q = dk"
        by blast
      have "(\<forall>n'. n < n' \<and> n' < length (i # js) \<longrightarrow> int_position N ((i # js) ! n') \<noteq> Inr q)
              \<Longrightarrow> (\<forall>n'. n0 < n' \<and> n' < length js \<longrightarrow> int_position N (js ! n') \<noteq> Inr q)"
      proof (intro allI impI)
        fix n' assume h: "\<forall>n'. n < n' \<and> n' < length (i # js) \<longrightarrow> int_position N ((i # js) ! n') \<noteq> Inr q"
          and "n0 < n' \<and> n' < length js"
        with Suc h [rule_format, of "Suc n'"] show "int_position N (js ! n') \<noteq> Inr q" by simp
      qed
      with qh q Suc show ?thesis by auto
    qed
  qed
  from lens keep hits show ?case by blast
qed

lemma load_arrays_ok:
  "load_arrays ld depth sl s = (None, s', t) \<Longrightarrow>
     \<exists>d m f dk. data s' = Some d \<and> mask s' = Some m \<and> flat s' = Some f \<and> dark s' = Some dk"
  by (auto simp: load_arrays_def split: sum.splits prod.splits)

lemma load_views_ok:
  assumes "load_views nf ids s = (None, s')"
  shows "\<exists>d m f dk v. data s = Some d \<and> mask s = Some m \<and> flat s = Some f \<and> dark s = Some dk
           \<and> populate d m f dk 0 ids
                \<lparr>v_data = replicate (nat nf) None, v_mask = replicate (nat nf) None,
                 v_flat = replicate (nat nf) None, v_dark = replicate (nat nf) None\<rparr> = (None, v)
           \<and> s' = set_views v s"
  using assms
  by (auto simp: load_views_def Let_def split: option.splits prod.splits)

lemma load_ok:
  assumes "load ev s first lst roidim roictr split = (None, s', reads)"
    and "N = nat ((case lst of None \<Rightarrow> int (fst (shape (scan_info s))) | Some l \<Rightarrow> l) - first)"
  shows "\<exists>ids d m f dk v.
           indices s' = Some ids \<and> data s' = Some d \<and> mask s' = Some m
         \<and> flat s' = Some f \<and> dark s' = Some dk
         \<and> datalist s' = Some (v_data v) \<and> masklist s' = Some (v_mask v)
         \<and> flatlist s' = Some (v_flat v) \<and> darklist s' = Some (v_dark v)
         \<and> populate d m f dk 0 ids
              \<lparr>v_data = replicate N None, v_mask = replicate N None,
               v_flat = replicate N None, v_dark = replicate N None\<rparr> = (None, v)"
proof -
  obtain n h w where sh: "shape (scan_info s) = (n, h, w)" by (cases "shape (scan_info s)") auto
  let ?lst = "case lst of None \<Rightarrow> int n | Some l \<Rightarrow> l"
  have pos: "?lst - first > 0"
    using assms(1) sh by (auto simp: load_def Let_def split: if_splits)
  obtain ids fslice where
    li: "load_indices ev (scan_info s) first ?lst split = Inr (ids, fslice)"
    using assms(1) sh pos
    by (cases "load_indices ev (scan_info s) first ?lst split") (auto simp: load_def Let_def)
  define s1 where "s1 = s\<lparr>indices := Some ids, Nframes := Some (?lst - first),
                 frame_slice := Some fslice,
                 asize := Some (case roidim of None \<Rightarrow> (int h, int w) | Some r \<Rightarrow> r)\<rparr>"
  define sl where "sl = (case fslice of Some fs \<Rightarrow> fs | None \<Rightarrow> IntTuple ids)
                 # [fst (load_roislice (h, w) roidim roictr),
                    snd (load_roislice (h, w) roidim roictr)]"
  obtain r2 s2 t2 where
    la0: "load_arrays (loader ev s1) (recursion_depth ev) sl s1 = (r2, s2, t2)"
    by (metis prod_cases3)
  have unf: "load ev s first lst roidim roictr split =
        (case (r2, s2, t2) of
           (Some e, s2, t) \<Rightarrow> (Some e, s2, t)
         | (None, s2, t) \<Rightarrow> (case load_views (?lst - first) ids s2 of (r, s3) \<Rightarrow> (r, s3, t)))"
    using sh pos li la0 by (simp add: load_def Let_def s1_def sl_def)
  have r2: "r2 = None" using unf assms(1) by (cases r2) auto
  have s1: "indices s1 = Some ids" by (simp add: s1_def)
  have la: "load_arrays (loader ev s1) (recursion_depth ev) sl s1 = (None, s2, reads)"
    using unf assms(1) la0 r2 by (auto split: prod.splits)
  have lv: "load_views (?lst - first) ids s2 = (None, s')"
    using unf assms(1) r2 by (auto split: prod.splits)
  from load_views_ok [OF lv] obtain d m f dk v where
    v: "data s2 = Some d" "mask s2 = Some m" "flat s2 = Some f" "dark s2 = Some dk"
      "populate d m f dk 0 ids
                \<lparr>v_data = replicate (nat (?lst - first)) None,
                 v_mask = replicate (nat (?lst - first)) None,
                 v_flat = replicate (nat (?lst - first)) None,
                 v_dark = replicate (nat (?lst - first)) None\<rparr> = (None, v)"
      "s' = set_views v s2"
    by blast
  have Neq: "nat (?lst - first) = N" using assms(2) sh by (cases lst) simp_all
  have i2: "indices s2 = Some ids" using load_arrays_fields [OF la] s1 by simp
  have "indices s' = Some ids \<and> data s' = Some d \<and> mask s' = Some m
         \<and> flat s' = Some f \<and> dark s' = Some dk
         \<and> datalist s' = Some (v_data v) \<and> masklist s' = Some (v_mask v)
         \<and> flatlist s' = Some (v_flat v) \<and> darklist s' = Some (v_dark v)"
    using v i2 by (simp add: set_views_def)
  moreover have "populate d m f dk 0 ids
              \<lparr>v_data = replicate N None, v_mask = replicate N None,
               v_flat = replicate N None, v_dark = replicate N None\<rparr> = (None, v)"
    using v(5) by (simp only: Neq)
  ultimately show ?thesis by blast
qed

text \<open>
  C5, as the code has it. After a \<open>load\<close> that returns, for the frame range
  \<open>first .. last - 1\<close> of \<open>N = last - first\<close> frames: each of the four lists has \<open>N\<close>
  entries. The \<open>k\<close>-th owned index \<open>i\<close> addresses the entry \<open>i\<close> of the lists (counted
  from the end when negative); unless a later owned index addresses the same
  entry, there \<open>datalist\<close> holds \<open>data[k]\<close>, \<open>masklist\<close> holds the whole mask when the
  mask is 2-D and \<open>mask[k]\<close> otherwise, and \<open>flatlist\<close> and \<open>darklist\<close> hold the whole
  loaded \<open>flat\<close> and \<open>dark\<close> (an array of any rank, or \<open>None\<close>), the same for all owned
  indices. The entries no owned index addresses are \<open>None\<close>.
\<close>

theorem load_views_populated:
  assumes "load ev s first lst roidim roictr split = (None, s', reads)"
    and "N = nat ((case lst of None \<Rightarrow> int (fst (shape (scan_info s))) | Some l \<Rightarrow> l) - first)"
  shows "\<exists>ids d m f dk dl ml fl kl.
           indices s' = Some ids \<and> data s' = Some d \<and> mask s' = Some m
         \<and> flat s' = Some f \<and> dark s' = Some dk
         \<and> datalist s' = Some dl \<and> masklist s' = Some ml
         \<and> flatlist s' = Some fl \<and> darklist s' = Some kl
         \<and> length dl = N \<and> length ml = N \<and> length fl = N \<and> length kl = N
         \<and> (\<forall>k<length ids. \<exists>p<N. int_position N (ids ! k) = Inr p \<and>
               ((\<forall>k'. k < k' \<and> k' < length ids \<longrightarrow> int_position N (ids ! k') \<noteq> Inr p) \<longrightarrow>
                  (\<exists>a fr. d = Some a \<and> getframe a k = Inr fr \<and> dl ! p = Some fr)
                \<and> (\<exists>b. m = Some b \<and>
                      (if ndim b = 2 then ml ! p = Some b
                       else (\<exists>fr. getframe b k = Inr fr \<and> ml ! p = Some fr)))
                \<and> fl ! p = f \<and> kl ! p = dk))
         \<and> (\<forall>j<N. (\<forall>i\<in>set ids. int_position N i \<noteq> Inr j) \<longrightarrow>
               dl ! j = None \<and> ml ! j = None \<and> fl ! j = None \<and> kl ! j = None)"
proof -
  from load_ok [OF assms] obtain ids d m f dk v where
    st: "indices s' = Some ids" "data s' = Some d" "mask s' = Some m"
      "flat s' = Some f" "dark s' = Some dk"
      "datalist s' = Some (v_data v)" "masklist s' = Some (v_mask v)"
      "flatlist s' = Some (v_flat v)" "darklist s' = Some (v_dark v)"
    and pop: "populate d m f dk 0 ids
              \<lparr>v_data = replicate N None, v_mask = replicate N None,
               v_flat = replicate N None, v_dark = replicate N None\<rparr> = (None, v)"
    by blast
  let ?v0 = "\<lparr>v_data = replicate N None, v_mask = replicate N None,
               v_flat = replicate N (None :: ndarray option), v_dark = replicate N None\<rparr>"
  have l0: "length (v_data ?v0) = N" "length (v_mask ?v0) = N"
    "length (v_flat ?v0) = N" "length (v_dark ?v0) = N"
    by simp_all
  from populate_ok [OF pop l0]
  have lens: "length (v_data v) = N \<and> length (v_mask v) = N
       \<and> length (v_flat v) = N \<and> length (v_dark v) = N"
    and keep: "\<forall>j<N. (\<forall>i\<in>set ids. int_position N i \<noteq> Inr j) \<longrightarrow>
             v_data v ! j = v_data ?v0 ! j \<and> v_mask v ! j = v_mask ?v0 ! j
           \<and> v_flat v ! j = v_flat ?v0 ! j \<and> v_dark v ! j = v_dark ?v0 ! j"
    and hits: "\<forall>n<length ids. \<exists>p<N. int_position N (ids ! n) = Inr p \<and>
             ((\<forall>n'. n < n' \<and> n' < length ids \<longrightarrow> int_position N (ids ! n') \<noteq> Inr p) \<longrightarrow>
                (\<exists>a fr. d = Some a \<and> getframe a (0 + n) = Inr fr \<and> v_data v ! p = Some fr)
              \<and> (\<exists>b. m = Some b \<and>
                    (if ndim b = 2 then v_mask v ! p = Some b
                     else (\<exists>fr. getframe b (0 + n) = Inr fr \<and> v_mask v ! p = Some fr)))
              \<and> v_flat v ! p = f \<and> v_dark v ! p = dk)"
    by blast+
  from keep have none: "\<forall>j<N. (\<forall>i\<in>set ids. int_position N i \<noteq> Inr j) \<longrightarrow>
               v_data v ! j = None \<and> v_mask v ! j = None \<and> v_flat v ! j = None \<and> v_dark v ! j = None"
    by simp
  from hits have hits': "\<forall>k<length ids. \<exists>p<N. int_position N (ids ! k) = Inr p \<and>
               ((\<forall>k'. k < k' \<and> k' < length ids \<longrightarrow> int_position N (ids ! k') \<noteq> Inr p) \<longrightarrow>
                  (\<exists>a fr. d = Some a \<and> getframe a k = Inr fr \<and> v_data v ! p = Some fr)
                \<and> (\<exists>b. m = Some b \<and>
                      (if ndim b = 2 then v_mask v ! p = Some b
                       else (\<exists>fr. getframe b k = Inr fr \<and> v_mask v ! p = Some fr)))
                \<and> v_flat v ! p = f \<and> v_dark v ! p = dk)"
    by (simp only: add.left_neutral)
  from st lens hits' none show ?thesis by blast
qed

theorem load_views_populated_witness:
  "\<exists>d m f dk dl ml fl kl.
     data (fst (snd (load single_process tiny_scan 0 None None None SplitFalse))) = Some d
   \<and> mask (fst (snd (load single_process tiny_scan 0 None None None SplitFalse))) = Some m
   \<and> flat (fst (snd (load single_process tiny_scan 0 None None None SplitFalse))) = Some f
   \<and> dark (fst (snd (load single_process tiny_scan 0 None None None SplitFalse))) = Some dk
   \<and> datalist (fst (snd (load single_process tiny_scan 0 None None None SplitFalse))) = Some dl
   \<and> masklist (fst (snd (load single_process tiny_scan 0 None None None SplitFalse))) = Some ml
   \<and> flatlist (fst (snd (load single_process tiny_scan 0 None None None SplitFalse))) = Some fl
   \<and> darklist (fst (snd (load single_process tiny_scan 0 None None None SplitFalse))) = Some kl
   \<and> length dl = 2 \<and> length ml = 2 \<and> length fl = 2 \<and> length kl = 2
   \<and> (\<exists>a fr. d = Some a \<and> getframe a 1 = Inr fr \<and> dl ! 1 = Some fr)
   \<and> fl ! 1 = f \<and> kl ! 1 = dk
   \<and> (\<exists>dl' ml' fl' kl'.
         datalist (fst (snd (load single_process tiny_scan 0 None None None (SplitList [1]))))
           = Some dl'
       \<and> masklist (fst (snd (load single_process tiny_scan 0 None None None (SplitList [1]))))
           = Some ml'
       \<and> flatlist (fst (snd (load single_process tiny_scan 0 None None None (SplitList [1]))))
           = Some fl'
       \<and> darklist (fst (snd (load single_process tiny_scan 0 None None None (SplitList [1]))))
           = Some kl'
       \<and> length dl' = 2 \<and> dl' ! 0 = None \<and> ml' ! 0 = None \<and> fl' ! 0 = None \<and> kl' ! 0 = None)"
proof -
  let ?q = "load single_process tiny_scan 0 None None None (SplitList [1])"
  have okq: "?q = (None, fst (snd ?q), snd (snd ?q))"
  proof -
    have "fst ?q = None" by code_simp
    then show ?thesis by (metis prod.collapse)
  qed
  have Nq: "(2::nat) = nat ((case None of None \<Rightarrow> int (fst (shape (scan_info tiny_scan))) | Some l \<Rightarrow> l) - 0)"
    by (simp add: tiny_scan_def tiny_pars_def)
  from load_views_populated [OF okq Nq] obtain ids' d' m' f' dk' dl' ml' fl' kl' where
    allq: "indices (fst (snd ?q)) = Some ids' \<and> data (fst (snd ?q)) = Some d'
         \<and> mask (fst (snd ?q)) = Some m'
         \<and> flat (fst (snd ?q)) = Some f' \<and> dark (fst (snd ?q)) = Some dk'
         \<and> datalist (fst (snd ?q)) = Some dl' \<and> masklist (fst (snd ?q)) = Some ml'
         \<and> flatlist (fst (snd ?q)) = Some fl' \<and> darklist (fst (snd ?q)) = Some kl'
         \<and> length dl' = 2 \<and> length ml' = 2 \<and> length fl' = 2 \<and> length kl' = 2
         \<and> (\<forall>k<length ids'. \<exists>p<2. int_position 2 (ids' ! k) = Inr p \<and>
               ((\<forall>k'. k < k' \<and> k' < length ids' \<longrightarrow> int_position 2 (ids' ! k') \<noteq> Inr p) \<longrightarrow>
                  (\<exists>a fr. d' = Some a \<and> getframe a k = Inr fr \<and> dl' ! p = Some fr)
                \<and> (\<exists>b. m' = Some b \<and>
                      (if ndim b = 2 then ml' ! p = Some b
                       else (\<exists>fr. getframe b k = Inr fr \<and> ml' ! p = Some fr)))
                \<and> fl' ! p = f' \<and> kl' ! p = dk'))
         \<and> (\<forall>j<2. (\<forall>i\<in>set ids'. int_position 2 i \<noteq> Inr j) \<longrightarrow>
               dl' ! j = None \<and> ml' ! j = None \<and> fl' ! j = None \<and> kl' ! j = None)"
    by (elim exE) (rule that)
  from allq have sq: "indices (fst (snd ?q)) = Some ids'"
      "datalist (fst (snd ?q)) = Some dl'" "masklist (fst (snd ?q)) = Some ml'"
      "flatlist (fst (snd ?q)) = Some fl'" "darklist (fst (snd ?q)) = Some kl'"
      "length dl' = 2"
    by simp_all
  have "indices (fst (snd ?q)) = Some [1]" by code_simp
  with sq(1) have idsq: "ids' = [1]" by simp
  have q1: "int_position 2 1 \<noteq> Inr 0" by (simp add: int_position.simps)
  from allq have "\<forall>j<2. (\<forall>i\<in>set ids'. int_position 2 i \<noteq> Inr j) \<longrightarrow>
               dl' ! j = None \<and> ml' ! j = None \<and> fl' ! j = None \<and> kl' ! j = None"
    by (elim conjE)
  from this [rule_format, of 0] idsq q1
  have absent: "dl' ! 0 = None \<and> ml' ! 0 = None \<and> fl' ! 0 = None \<and> kl' ! 0 = None"
    by simp
  have second: "\<exists>dl' ml' fl' kl'.
         datalist (fst (snd ?q)) = Some dl' \<and> masklist (fst (snd ?q)) = Some ml'
       \<and> flatlist (fst (snd ?q)) = Some fl' \<and> darklist (fst (snd ?q)) = Some kl'
       \<and> length dl' = 2 \<and> dl' ! 0 = None \<and> ml' ! 0 = None \<and> fl' ! 0 = None \<and> kl' ! 0 = None"
    using sq(2-6) absent by blast
  let ?r = "load single_process tiny_scan 0 None None None SplitFalse"
  have ok: "?r = (None, fst (snd ?r), snd (snd ?r))"
  proof -
    have "fst ?r = None" by code_simp
    then show ?thesis by (metis prod.collapse)
  qed
  have N: "(2::nat) = nat ((case None of None \<Rightarrow> int (fst (shape (scan_info tiny_scan))) | Some l \<Rightarrow> l) - 0)"
    by (simp add: tiny_scan_def tiny_pars_def)
  from load_views_populated [OF ok N] obtain ids d m f dk dl ml fl kl where
    all: "indices (fst (snd ?r)) = Some ids \<and> data (fst (snd ?r)) = Some d
         \<and> mask (fst (snd ?r)) = Some m
         \<and> flat (fst (snd ?r)) = Some f \<and> dark (fst (snd ?r)) = Some dk
         \<and> datalist (fst (snd ?r)) = Some dl \<and> masklist (fst (snd ?r)) = Some ml
         \<and> flatlist (fst (snd ?r)) = Some fl \<and> darklist (fst (snd ?r)) = Some kl
         \<and> length dl = 2 \<and> length ml = 2 \<and> length fl = 2 \<and> length kl = 2
         \<and> (\<forall>k<length ids. \<exists>p<2. int_position 2 (ids ! k) = Inr p \<and>
               ((\<forall>k'. k < k' \<and> k' < length ids \<longrightarrow> int_position 2 (ids ! k') \<noteq> Inr p) \<longrightarrow>
                  (\<exists>a fr. d = Some a \<and> getframe a k = Inr fr \<and> dl ! p = Some fr)
                \<and> (\<exists>b. m = Some b \<and>
                      (if ndim b = 2 then ml ! p = Some b
                       else (\<exists>fr. getframe b k = Inr fr \<and> ml ! p = Some fr)))
                \<and> fl ! p = f \<and> kl ! p = dk))
         \<and> (\<forall>j<2. (\<forall>i\<in>set ids. int_position 2 i \<noteq> Inr j) \<longrightarrow>
               dl ! j = None \<and> ml ! j = None \<and> fl ! j = None \<and> kl ! j = None)"
    by (elim exE) (rule that)
  then have st: "indices (fst (snd ?r)) = Some ids" "data (fst (snd ?r)) = Some d"
      "mask (fst (snd ?r)) = Some m" "flat (fst (snd ?r)) = Some f" "dark (fst (snd ?r)) = Some dk"
      "datalist (fst (snd ?r)) = Some dl" "masklist (fst (snd ?r)) = Some ml"
      "flatlist (fst (snd ?r)) = Some fl" "darklist (fst (snd ?r)) = Some kl"
      "length dl = 2" "length ml = 2" "length fl = 2" "length kl = 2"
    by simp_all
  from all have hits: "\<forall>k<length ids. \<exists>p<2. int_position 2 (ids ! k) = Inr p \<and>
               ((\<forall>k'. k < k' \<and> k' < length ids \<longrightarrow> int_position 2 (ids ! k') \<noteq> Inr p) \<longrightarrow>
                  (\<exists>a fr. d = Some a \<and> getframe a k = Inr fr \<and> dl ! p = Some fr)
                \<and> (\<exists>b. m = Some b \<and>
                      (if ndim b = 2 then ml ! p = Some b
                       else (\<exists>fr. getframe b k = Inr fr \<and> ml ! p = Some fr)))
                \<and> fl ! p = f \<and> kl ! p = dk)"
    by (elim conjE)
  have "indices (fst (snd ?r)) = Some [0, 1]" by code_simp
  with st(1) have ids: "ids = [0, 1]" by simp
  have p1: "int_position 2 1 = Inr 1" by (simp add: int_position.simps)
  from hits [rule_format, of 1] ids p1
  have "(\<exists>a fr. d = Some a \<and> getframe a 1 = Inr fr \<and> dl ! 1 = Some fr)
       \<and> fl ! 1 = f \<and> kl ! 1 = dk"
    by auto
  then have first: "length dl = 2 \<and> length ml = 2 \<and> length fl = 2 \<and> length kl = 2
       \<and> (\<exists>a fr. d = Some a \<and> getframe a 1 = Inr fr \<and> dl ! 1 = Some fr)
       \<and> fl ! 1 = f \<and> kl ! 1 = dk"
    using st(10-13) by simp
  show ?thesis
    apply (rule exI [of _ d], rule exI [of _ m], rule exI [of _ f], rule exI [of _ dk])
    apply (rule exI [of _ dl], rule exI [of _ ml], rule exI [of _ fl], rule exI [of _ kl])
    using st(2-9) first second apply (intro conjI)
    apply (simp_all only:)
    done
qed

text \<open>
  C5 as stated fails for \<open>flatlist\<close> (and \<open>darklist\<close>) when the loaded array is 3-D:
  the scan without source of two frames loads a flat of shape \<open>(2, 1, 1)\<close>, and
  \<open>flatlist[0]\<close> is that whole array, not its frame 0 of shape \<open>(1, 1)\<close>.
\<close>

theorem load_flatlist_counterexample:
  "fst (load single_process tiny_scan 0 None None None SplitFalse) = None
   \<and> flat (fst (snd (load single_process tiny_scan 0 None None None SplitFalse)))
       = Some (Some (np_ones [2, 1, 1]))
   \<and> ndim (np_ones [2, 1, 1]) = 3
   \<and> getframe (np_ones [2, 1, 1]) 0 = Inr (np_ones [1, 1])
   \<and> flatlist (fst (snd (load single_process tiny_scan 0 None None None SplitFalse)))
       = Some [Some (np_ones [2, 1, 1]), Some (np_ones [2, 1, 1])]
   \<and> np_ones [2, 1, 1] \<noteq> np_ones [1, 1]"
proof -
  have a: "fst (load single_process tiny_scan 0 None None None SplitFalse) = None" by code_simp
  have b: "flat (fst (snd (load single_process tiny_scan 0 None None None SplitFalse)))
       = Some (Some (np_ones [2, 1, 1]))" by code_simp
  have c: "ndim (np_ones [2, 1, 1]) = 3" by code_simp
  have d: "getframe (np_ones [2, 1, 1]) 0 = Inr (np_ones [1, 1])" by code_simp
  have e: "flatlist (fst (snd (load single_process tiny_scan 0 None None None SplitFalse)))
       = Some [Some (np_ones [2, 1, 1]), Some (np_ones [2, 1, 1])]" by code_simp
  have f: "np_ones [2, 1, 1] \<noteq> np_ones [1, 1]" by code_simp
  from a b c d e f show ?thesis by blast
qed

subsection \<open>Where the code departs from its own documentation\<close>

text \<open>
  C7, the code at the failing input. When the destination exists and
  \<open>force_overwrite\<close> is \<open>None\<close>, the second branch of lines 463-470
  (\<open>elif not force_overwrite\<close>) is taken, so \<open>save\<close> raises RuntimeError without
  asking: on the loaded scan of two frames, with a user who would answer \<open>Y\<close>, no
  question is put and nothing is written. With \<open>True\<close> the file is written and a
  warning logged; with \<open>False\<close> RuntimeError is raised.
\<close>

theorem save_ask_raises_unasked:
  "save_overwrite ev w f None = (if path_exists ev f then (Some RuntimeError, w) else (None, w))
   \<and> save file_exists no_world loaded_scan (Some ''scan.h5'') None = (Some RuntimeError, no_world)
   \<and> fst (save file_exists no_world loaded_scan (Some ''scan.h5'') (Some True)) = None
   \<and> map fst (written (snd (save file_exists no_world loaded_scan (Some ''scan.h5'') (Some True))))
       = [''scan.h5'']
   \<and> length (warnings (snd (save file_exists no_world loaded_scan (Some ''scan.h5'') (Some True)))) = 1
   \<and> save file_exists no_world loaded_scan (Some ''scan.h5'') (Some False)
       = (Some RuntimeError, no_world)"
proof -
  have a: "save_overwrite ev w f None
             = (if path_exists ev f then (Some RuntimeError, w) else (None, w))"
    by (simp add: save_overwrite_def)
  have b: "save file_exists no_world loaded_scan (Some ''scan.h5'') None
             = (Some RuntimeError, no_world)"
    by code_simp
  have c: "fst (save file_exists no_world loaded_scan (Some ''scan.h5'') (Some True)) = None"
    by code_simp
  have d: "map fst (written (snd (save file_exists no_world loaded_scan (Some ''scan.h5'')
             (Some True)))) = [''scan.h5'']"
    by code_simp
  have e: "length (warnings (snd (save file_exists no_world loaded_scan (Some ''scan.h5'')
             (Some True)))) = 1"
    by code_simp
  have f: "save file_exists no_world loaded_scan (Some ''scan.h5'') (Some False)
             = (Some RuntimeError, no_world)"
    by code_simp
  from a b c d e f show ?thesis by blast
qed

text \<open>
  C8, the code at the failing input. No \<open>PseudoDynamicDataSource\<close> can be
  constructed: line 591 raises NameError for every argument. And on the object the
  constructor is written to build for a scan of twelve frames with five patterns
  per call, the first \<open>next\<close> of \<open>feed_data\<close> raises AttributeError at line 603
  (\<open>DS.load_data()\<close>): no window is yielded and no counter advances.
\<close>

theorem chunked_feed_raises:
  "PseudoDynamicDataSource_init ev filelist unique_scan_labels patterns_per_call = Inl NameError
   \<and> dict_keys (scans chunked_source) = [''Scan00'']
   \<and> fst (pseudo_feed_next chunked_source NotStarted) = Inl AttributeError
   \<and> calls (fst (snd (pseudo_feed_next chunked_source NotStarted))) = 0
   \<and> frame_count (fst (snd (pseudo_feed_next chunked_source NotStarted))) = 0
   \<and> snd (snd (pseudo_feed_next chunked_source NotStarted)) = Finished"
proof -
  have a: "PseudoDynamicDataSource_init ev filelist unique_scan_labels patterns_per_call
             = Inl NameError"
    by (simp add: PseudoDynamicDataSource_init_def module_globals_def)
  have b: "dict_keys (scans chunked_source) = [''Scan00'']" by code_simp
  have c: "fst (pseudo_feed_next chunked_source NotStarted) = Inl AttributeError" by code_simp
  have d: "calls (fst (snd (pseudo_feed_next chunked_source NotStarted))) = 0" by code_simp
  have e: "frame_count (fst (snd (pseudo_feed_next chunked_source NotStarted))) = 0" by code_simp
  have f: "snd (snd (pseudo_feed_next chunked_source NotStarted)) = Finished" by code_simp
  from a b c d e f show ?thesis by blast
qed

text \<open>
  C9, the code at the failing input. For two scans without labels of their own,
  \<open>__init__\<close> stores the first under \<open>Scan00\<close> and the second under \<open>Scan01\<close>; the
  dictionary gives \<open>Scan01\<close> first, so the first batch of \<open>feed_data\<close> is the second
  scan's and the second batch the first scan's, after which the generator is
  exhausted and \<open>data_available\<close> is false.
\<close>

theorem feed_data_dictionary_order:
  "format_idx (scan_label DEFAULT_scan_info) 0 = Inr ''Scan00''
   \<and> format_idx (scan_label DEFAULT_scan_info) 1 = Inr ''Scan01''
   \<and> (case two_scans of Inl e \<Rightarrow> [] | Inr src \<Rightarrow> dict_keys (scans src)) = [''Scan01'', ''Scan00'']
   \<and> (case two_scans of
         Inl e \<Rightarrow> None
       | Inr src \<Rightarrow>
           (case feed_next single_process src NotStarted of
              (Inr (Some batch1), src1, g1) \<Rightarrow>
                (case feed_next single_process src1 g1 of
                   (Inr (Some batch2), src2, g2) \<Rightarrow>
                     (case feed_next single_process src2 g2 of
                        (Inr None, src3, g3) \<Rightarrow>
                          Some (map_of (common batch1) ''label'', map_of (common batch2) ''label'',
                                map e_index (iterable batch1), data_available src3)
                      | _ \<Rightarrow> None)
                 | _ \<Rightarrow> None)
            | _ \<Rightarrow> None))
       = Some (Some (PStr ''Scan01''), Some (PStr ''Scan00''), [0, 1], False)"
proof -
  have a: "format_idx (scan_label DEFAULT_scan_info) 0 = Inr ''Scan00''" by code_simp
  have b: "format_idx (scan_label DEFAULT_scan_info) 1 = Inr ''Scan01''" by code_simp
  have c: "(case two_scans of Inl e \<Rightarrow> [] | Inr src \<Rightarrow> dict_keys (scans src))
             = [''Scan01'', ''Scan00'']"
    by code_simp
  have d: "(case two_scans of
         Inl e \<Rightarrow> None
       | Inr src \<Rightarrow>
           (case feed_next single_process src NotStarted of
              (Inr (Some batch1), src1, g1) \<Rightarrow>
                (case feed_next single_process src1 g1 of
                   (Inr (Some batch2), src2, g2) \<Rightarrow>
                     (case feed_next single_process src2 g2 of
                        (Inr None, src3, g3) \<Rightarrow>
                          Some (map_of (common batch1) ''label'', map_of (common batch2) ''label'',
                                map e_index (iterable batch1), data_available src3)
                      | _ \<Rightarrow> None)
                 | _ \<Rightarrow> None)
            | _ \<Rightarrow> None))
       = Some (Some (PStr ''Scan01''), Some (PStr ''Scan00''), [0, 1], False)"
    by code_simp
  from a b c d show ?thesis by blast
qed

end
